theory Spec2Isabelle
  imports Main
begin

section \<open>JavaScript values and the built-ins that Server.js calls\<close>

text \<open>
  The configuration object handed to \<^verbatim>\<open>send\<close>, its \<^verbatim>\<open>args\<close>, the callbacks and the
  fields of the class are JavaScript values. An object is the list of its own enumerable
  properties in the order \<^verbatim>\<open>Object.entries\<close> yields them; an array is an object whose
  keys are its indices (\<^verbatim>\<open>typeof\<close> gives \<^verbatim>\<open>"object"\<close> for both, and the code never
  tells them apart). A function is an opaque identity. Numbers are the integer-valued ones.
  A character is a code unit in the range 0..255.
\<close>

datatype jsval =
    JUndefined
  | JNull
  | JBool bool
  | JNum int
  | JStr string
  | JFun nat
  | JObj "(string \<times> jsval) list"

datatype error = TypeError | ReferenceError

fun typeof :: "jsval \<Rightarrow> string" where
  "typeof JUndefined = ''undefined''"
| "typeof JNull = ''object''"
| "typeof (JBool b) = ''boolean''"
| "typeof (JNum n) = ''number''"
| "typeof (JStr s) = ''string''"
| "typeof (JFun f) = ''function''"
| "typeof (JObj kvs) = ''object''"

text \<open>\<^verbatim>\<open>!v\<close> is \<open>\<not> truthy v\<close>.\<close>

fun truthy :: "jsval \<Rightarrow> bool" where
  "truthy JUndefined = False"
| "truthy JNull = False"
| "truthy (JBool b) = b"
| "truthy (JNum n) = (n \<noteq> 0)"
| "truthy (JStr s) = (s \<noteq> [])"
| "truthy (JFun f) = True"
| "truthy (JObj kvs) = True"

text \<open>
  Property read \<^verbatim>\<open>q[k]\<close> for the keys the code uses (none of them is a property of a
  built-in prototype): a TypeError on \<^verbatim>\<open>null\<close> and \<^verbatim>\<open>undefined\<close>, \<^verbatim>\<open>undefined\<close> for a
  missing key and on the other primitives.
\<close>

definition js_prop :: "(string \<times> jsval) list \<Rightarrow> string \<Rightarrow> jsval" where
  "js_prop kvs k = (case map_of kvs k of None \<Rightarrow> JUndefined | Some v \<Rightarrow> v)"

fun js_get :: "jsval \<Rightarrow> string \<Rightarrow> error + jsval" where
  "js_get JUndefined k = Inl TypeError"
| "js_get JNull k = Inl TypeError"
| "js_get (JObj kvs) k = Inr (js_prop kvs k)"
| "js_get v k = Inr JUndefined"

text \<open>\<^verbatim>\<open>a || b\<close>\<close>

definition js_or :: "jsval \<Rightarrow> jsval \<Rightarrow> jsval" where
  "js_or a b = (if truthy a then a else b)"

text \<open>
  A parameter declared with the default \<^verbatim>\<open>= false\<close>: the default replaces an argument that
  is missing or \<^verbatim>\<open>undefined\<close>.
\<close>

definition default_false :: "jsval \<Rightarrow> jsval" where
  "default_false v = (if v = JUndefined then JBool False else v)"

text \<open>Sequencing of computations that may throw.\<close>

definition and_then :: "error + 'a \<Rightarrow> ('a \<Rightarrow> error + 'b) \<Rightarrow> error + 'b" where
  "and_then r f = (case r of Inl e \<Rightarrow> Inl e | Inr x \<Rightarrow> f x)"

text \<open>
  What the hosting page supplies: \<^verbatim>\<open>window.location\<close>, the global scope \<^verbatim>\<open>window[name]\<close>
  (\<^verbatim>\<open>undefined\<close> for a name that is not bound), the string conversion of values that are
  not strings, and \<^verbatim>\<open>JSON.parse\<close> (\<open>None\<close> when it throws a SyntaxError).
\<close>

record env =
  location_protocol :: string
  location_host :: string
  location_hostname :: string
  location_pathname :: string
  window :: "string \<Rightarrow> jsval"
  to_string :: "jsval \<Rightarrow> string"
  JSON_parse :: "string \<Rightarrow> jsval option"

definition ToString :: "env \<Rightarrow> jsval \<Rightarrow> string" where
  "ToString e v = (case v of JStr t \<Rightarrow> t | _ \<Rightarrow> to_string e v)"

subsection \<open>String built-ins\<close>

text \<open>\<^verbatim>\<open>toUpperCase\<close> and \<^verbatim>\<open>toLowerCase\<close>, on the ASCII letters.\<close>

definition upper_char :: "char \<Rightarrow> char" where
  "upper_char c = (let n = (of_char c :: nat) in
     if 97 \<le> n \<and> n \<le> 122 then ''ABCDEFGHIJKLMNOPQRSTUVWXYZ'' ! (n - 97) else c)"

definition lower_char :: "char \<Rightarrow> char" where
  "lower_char c = (let n = (of_char c :: nat) in
     if 65 \<le> n \<and> n \<le> 90 then ''abcdefghijklmnopqrstuvwxyz'' ! (n - 65) else c)"

definition toUpperCase :: "string \<Rightarrow> string" where
  "toUpperCase s = map upper_char s"

definition toLowerCase :: "string \<Rightarrow> string" where
  "toLowerCase s = map lower_char s"

text \<open>\<^verbatim>\<open>s.indexOf(p) != -1\<close>: \<open>p\<close> occurs in \<open>s\<close>.\<close>

fun indexOf_found :: "string \<Rightarrow> string \<Rightarrow> bool" where
  "indexOf_found [] p = (p = [])"
| "indexOf_found (c # cs) p = (take (length p) (c # cs) = p \<or> indexOf_found cs p)"

text \<open>
  \<^verbatim>\<open>encodeURI\<close>: letters, digits and \<^verbatim>\<open>- _ . ! ~ * ' ( ) ; / ? : @ & = + $ , #\<close> are kept;
  every other character is replaced by the percent-escapes of its UTF-8 bytes (one byte
  below 128, two bytes from 128 to 255).
\<close>

definition hex_digit :: "nat \<Rightarrow> char" where
  "hex_digit n = ''0123456789ABCDEF'' ! n"

definition pct :: "nat \<Rightarrow> string" where
  "pct b = [CHR ''%'', hex_digit (b div 16), hex_digit (b mod 16)]"

definition uri_keep :: "char \<Rightarrow> bool" where
  "uri_keep c = (let n = (of_char c :: nat) in
     (65 \<le> n \<and> n \<le> 90) \<or> (97 \<le> n \<and> n \<le> 122) \<or> (48 \<le> n \<and> n \<le> 57) \<or>
     c \<in> set ''-_.!~*'' \<or> c = CHR 0x27 \<or> c \<in> set ''();/?:@&=+$,#'')"

definition encode_char :: "char \<Rightarrow> string" where
  "encode_char c = (let n = (of_char c :: nat) in
     if uri_keep c then [c]
     else if n < 128 then pct n
     else pct (192 + n div 64) @ pct (128 + n mod 64))"

definition encodeURI :: "string \<Rightarrow> string" where
  "encodeURI s = concat (map encode_char s)"

section \<open>The static class (first version of Server.js)\<close>

text \<open>
  One call of \<^verbatim>\<open>open\<close>, \<^verbatim>\<open>setRequestHeader\<close>* and \<^verbatim>\<open>send\<close> on an XMLHttpRequest, as the
  transport sees it. The XMLHttpRequest belongs to the browser: the model records what the
  code hands to it, and takes these calls not to throw.
\<close>

record request =
  rq_method :: string
  rq_url :: jsval
  rq_headers :: "(string \<times> string) list"
  rq_body :: "string option"
  rq_timeout :: "jsval option"

text \<open>
  The static fields that the code reads or writes, the requests issued so far and the
  console. \<open>contentType\<close> is not declared by the class: \<^verbatim>\<open>setContentType\<close> creates it.
\<close>

record server =
  error :: jsval
  status :: jsval
  error_level :: nat
  url_auto_resolve :: jsval
  con :: "nat option"
  "method" :: string
  src :: jsval
  content_type :: string
  contentType :: jsval
  obj :: jsval
  params :: string
  cbf :: jsval
  net :: "request list"
  console :: "string list"

definition Server_init :: server where
  "Server_init = \<lparr> error = JBool False, status = JBool False, error_level = 0,
     url_auto_resolve = JBool False, con = None, method = ''POST'', src = JBool False,
     content_type = ''application/x-www-form-urlencoded'', contentType = JUndefined,
     obj = JBool False, params = [], cbf = JBool False, net = [], console = [] \<rparr>"

definition checkArgs :: "server \<Rightarrow> jsval \<Rightarrow> error + (bool \<times> server)" where
  "checkArgs s q0 =
     (let q = default_false q0 in
      if typeof q \<noteq> ''array'' \<and> typeof q \<noteq> ''object'' then Inr (False, s)
      else and_then (js_get q ''src'') (\<lambda>v.
        if \<not> truthy v then
          Inr (False, s\<lparr> status := JNum 1,
            error := JStr ''URL destination was not specified in arguments. Please specify a target URL server to send this data to.'',
            error_level := 0x01 \<rparr>)
        else and_then (js_get q ''args'') (\<lambda>a.
          if \<not> truthy a then
            Inr (True, s\<lparr> status := JNum 1, error := JStr ''No arguments were specified.'',
              error_level := 0x10 \<rparr>)
          else Inr (True, s))))"

definition getSrc :: "server \<Rightarrow> error + jsval" where
  "getSrc s =
     (if typeof (obj s) \<noteq> ''array'' \<and> typeof (obj s) \<noteq> ''object'' then Inr (JBool False)
      else and_then (js_get (obj s) ''src'') (\<lambda>v.
        Inr (if typeof v = ''string'' then v else JBool False)))"

definition check_obj :: "server \<Rightarrow> bool" where
  "check_obj s = (let t = typeof (obj s) in t = ''array'' \<or> t = ''object'')"

definition url_encode :: "jsval \<Rightarrow> jsval" where
  "url_encode q0 =
     (let q = default_false q0 in case q of JStr t \<Rightarrow> JStr (encodeURI t) | _ \<Rightarrow> q)"

text \<open>
  The loop of \<^verbatim>\<open>getParams\<close> over \<^verbatim>\<open>Object.entries\<close>, with its accumulator \<^verbatim>\<open>tmp\<close> and its
  counter \<^verbatim>\<open>i\<close>, which is incremented on the first pair only.
\<close>

fun getParams_loop :: "env \<Rightarrow> (string \<times> jsval) list \<Rightarrow> string \<Rightarrow> nat \<Rightarrow> string" where
  "getParams_loop e [] tmp i = tmp"
| "getParams_loop e ((item, val) # rest) tmp i =
     (if i = 0 then
        getParams_loop e rest
          (tmp @ ((ToString e (url_encode (JStr item)) @ ''='') @ ToString e (url_encode val)))
          (i + 1)
      else
        getParams_loop e rest
          (tmp @ (((''&'' @ ToString e (url_encode (JStr item))) @ ''='') @ ToString e (url_encode val)))
          i)"

definition getParams :: "env \<Rightarrow> server \<Rightarrow> error + string" where
  "getParams e s =
     and_then (js_get (obj s) ''args'') (\<lambda>a.
       if \<not> truthy a \<or> \<not> (typeof a = ''array'' \<or> typeof a = ''object'') then Inr []
       else (case a of JObj kvs \<Rightarrow> Inr (getParams_loop e kvs [] 0) | _ \<Rightarrow> Inl TypeError))"

definition setMethod :: "server \<Rightarrow> error + server" where
  "setMethod s =
     (if \<not> check_obj s then Inr s
      else and_then (js_get (obj s) ''method'') (\<lambda>m.
        if truthy m \<and> typeof m = ''string''
        then Inr (s\<lparr> method := toUpperCase (case m of JStr t \<Rightarrow> t | _ \<Rightarrow> []) \<rparr>)
        else Inr s))"

text \<open>
  \<^verbatim>\<open>setContentType\<close> assigns \<^verbatim>\<open>Server.contentType\<close>; the declared field, which
  \<^verbatim>\<open>connect\<close> reads, is \<^verbatim>\<open>Server.content_type\<close>.
\<close>

definition setContentType :: "server \<Rightarrow> error + server" where
  "setContentType s =
     (if \<not> check_obj s then Inr s
      else and_then (js_get (obj s) ''content-type'') (\<lambda>m.
        if truthy m \<and> typeof m = ''string''
        then Inr (s\<lparr> contentType := JStr (toUpperCase (case m of JStr t \<Rightarrow> t | _ \<Rightarrow> [])) \<rparr>)
        else Inr s))"

definition setCallbackFunction :: "server \<Rightarrow> error + server" where
  "setCallbackFunction s =
     (if \<not> check_obj s then Inr s
      else
        and_then (js_get (obj s) ''func'') (\<lambda>a.
        and_then (js_get (obj s) ''cbf'') (\<lambda>b.
        and_then (js_get (obj s) ''callback'') (\<lambda>c.
        and_then (js_get (obj s) ''callback-function'') (\<lambda>d.
          Inr (s\<lparr> cbf := js_or (js_or (js_or (js_or a b) c) d) (JBool False) \<rparr>))))))"

text \<open>
  \<^verbatim>\<open>!Server.method.length > 0\<close> is \<^verbatim>\<open>(!Server.method.length) > 0\<close>: the negation gives
  \<^verbatim>\<open>true\<close> exactly for length 0, and \<^verbatim>\<open>true > 0\<close> compares 1 with 0. The field
  \<open>method\<close> always holds a string, so \<^verbatim>\<open>Server.method === false\<close> is \<open>False\<close>.
\<close>

definition checkReq :: "server \<Rightarrow> bool" where
  "checkReq s =
     (\<not> (False \<or> (of_bool (length (method s) = 0) :: nat) > 0
          \<or> (of_bool (length (params s) = 0) :: nat) > 0
          \<or> obj s = JBool False))"

definition connect :: "server \<Rightarrow> bool \<times> server" where
  "connect s =
     (if \<not> checkReq s then (False, s)
      else (True, s\<lparr> con := Some (length (net s)),
              net := net s @ [\<lparr> rq_method = method s, rq_url = src s,
                rq_headers = [(''Content-type'', content_type s)],
                rq_body = Some (params s), rq_timeout = None \<rparr>] \<rparr>))"

subsection \<open>Source resolution\<close>

text \<open>
  \<^verbatim>\<open>dirname\<close> tests \<^verbatim>\<open>q.split(".")\<close>'s last piece with the unanchored
  \<^verbatim>\<open>/php|js|css|html|asp/i\<close> and then replaces the first (leftmost) match of
  \<^verbatim>\<open>/[\/]?[A-z0-9]+\.(php|js|css|html|asp).*/i\<close> by \<^verbatim>\<open>"/"\<close>.
  The class \<^verbatim>\<open>[A-z0-9]\<close> is the code range from \<^verbatim>\<open>A\<close> to \<^verbatim>\<open>z\<close> and the digits; it does not
  hold the dot, so the greedy \<^verbatim>\<open>[A-z0-9]+\<close> can only be followed by \<^verbatim>\<open>\.\<close> when it takes the
  whole run. \<^verbatim>\<open>.*\<close> takes the rest of the line.
\<close>

definition line_terminator :: "char \<Rightarrow> bool" where
  "line_terminator c = (c = CHR 0x0A \<or> c = CHR 0x0D)"

definition class_Az09 :: "char \<Rightarrow> bool" where
  "class_Az09 c = (let n = (of_char c :: nat) in (65 \<le> n \<and> n \<le> 122) \<or> (48 \<le> n \<and> n \<le> 57))"

definition starts_ci :: "string \<Rightarrow> string \<Rightarrow> bool" where
  "starts_ci p t = (take (length p) (toLowerCase t) = p)"

definition ext_here :: "string \<Rightarrow> bool" where
  "ext_here t = (starts_ci ''php'' t \<or> starts_ci ''js'' t \<or> starts_ci ''css'' t
     \<or> starts_ci ''html'' t \<or> starts_ci ''asp'' t)"

fun ext_found :: "string \<Rightarrow> bool" where
  "ext_found [] = False"
| "ext_found (c # cs) = (ext_here (c # cs) \<or> ext_found cs)"

definition name_dot_ext :: "string \<Rightarrow> string option" where
  "name_dot_ext t =
     (case dropWhile class_Az09 t of
        [] \<Rightarrow> None
      | d # r \<Rightarrow>
          if takeWhile class_Az09 t \<noteq> [] \<and> d = CHR ''.'' \<and> ext_here r
          then Some (dropWhile (\<lambda>c. \<not> line_terminator c) r) else None)"

definition regex_at :: "string \<Rightarrow> string option" where
  "regex_at t =
     (case t of
        [] \<Rightarrow> None
      | c # cs \<Rightarrow>
          if c = CHR ''/'' then (case name_dot_ext cs of Some r \<Rightarrow> Some r | None \<Rightarrow> name_dot_ext t)
          else name_dot_ext t)"

fun regex_replace :: "string \<Rightarrow> string" where
  "regex_replace [] = []"
| "regex_replace (c # cs) =
     (case regex_at (c # cs) of Some r \<Rightarrow> ''/'' @ r | None \<Rightarrow> c # regex_replace cs)"

definition last_split :: "string \<Rightarrow> string" where
  "last_split t = rev (takeWhile (\<lambda>c. c \<noteq> CHR ''.'') (rev t))"

definition dirname :: "jsval \<Rightarrow> jsval" where
  "dirname q0 =
     (let q = default_false q0 in
      case q of
        JStr t \<Rightarrow> JStr (if indexOf_found t ''.'' \<and> ext_found (last_split t) then regex_replace t else t)
      | _ \<Rightarrow> q)"

definition validateSources :: "env \<Rightarrow> server \<Rightarrow> server" where
  "validateSources e s =
     (case src s of
        JStr t \<Rightarrow>
          if \<not> indexOf_found (toLowerCase t) ''http''
          then s\<lparr> src := JStr (location_protocol e @ ''//''
                 @ (if location_host e \<noteq> [] then location_host e else location_hostname e)
                 @ ToString e (dirname (JStr (location_pathname e))) @ t) \<rparr>
          else s
      | _ \<Rightarrow> s)"

subsection \<open>send\<close>

definition send :: "env \<Rightarrow> server \<Rightarrow> jsval \<Rightarrow> jsval \<Rightarrow> jsval \<Rightarrow> error + (bool \<times> server)" where
  "send e s args0 cbf0 func0 =
     (let args = default_false args0; cbf_arg = default_false cbf0; func_arg = default_false func0 in
      and_then (checkArgs s args) (\<lambda>(ok, s1).
       if \<not> ok then Inr (False, s1\<lparr> console := console s1 @ [''Missing params''] \<rparr>)
       else
         let s2 = s1\<lparr> obj := args \<rparr> in
         and_then (getSrc s2) (\<lambda>v.
         let s3 = s2\<lparr> src := v \<rparr>;
             s4 = (if url_auto_resolve s3 = JBool False then validateSources e s3 else s3) in
         and_then (getParams e s4) (\<lambda>p.
         and_then (setMethod (s4\<lparr> params := p \<rparr>)) (\<lambda>s5.
         and_then (setContentType s5) (\<lambda>s6.
         and_then
           (if func_arg = JBool False \<and> cbf_arg \<noteq> JBool False then Inr (s6\<lparr> cbf := cbf_arg \<rparr>)
            else if cbf_arg = JBool True \<and> func_arg \<noteq> JBool False then Inr (s6\<lparr> cbf := func_arg \<rparr>)
            else setCallbackFunction s6)
           (\<lambda>s7. Inr (connect s7))))))))"

subsection \<open>The completion handler of connect\<close>

text \<open>What one run of the handler does with the callback.\<close>

datatype reaction =
    NoReaction
  | ConsoleWarn string
  | Invoke jsval jsval
  | Throws error

definition call :: "jsval \<Rightarrow> jsval \<Rightarrow> reaction" where
  "call f x = (if typeof f = ''function'' then Invoke f x else Throws TypeError)"

definition onreadystatechange :: "env \<Rightarrow> server \<Rightarrow> nat \<Rightarrow> nat \<Rightarrow> string \<Rightarrow> reaction" where
  "onreadystatechange e s readyState xstatus responseText =
     (if readyState \<noteq> 4 then NoReaction
      else if 200 \<le> xstatus \<and> xstatus < 300 then
        if \<not> truthy (cbf s) then ConsoleWarn ''No callback function specified.''
        else if truthy (window e (ToString e (cbf s))) \<or> typeof (cbf s) = ''function'' then
          let resp =
            (if (CHR ''{'' \<in> set responseText \<and> CHR ''}'' \<in> set responseText)
                \<or> (CHR ''['' \<in> set responseText \<and> CHR '']'' \<in> set responseText)
             then (case JSON_parse e responseText of Some v \<Rightarrow> v | None \<Rightarrow> JStr responseText)
             else JStr responseText)
          in if truthy (window e (ToString e (cbf s)))
             then call (window e (ToString e (cbf s))) resp
             else call (cbf s) resp
        else ConsoleWarn ''Unable to locate callback function.''
      else NoReaction)"

subsection \<open>canReach\<close>

text \<open>
  The promise returned by \<^verbatim>\<open>canReach\<close> and the events the XMLHttpRequest delivers to the
  three handlers. A promise keeps the value of its first \<^verbatim>\<open>resolve\<close>. The parameter
  \<^verbatim>\<open>timeout\<close> has the default 100.
\<close>

datatype promise = Pending | Resolved bool

datatype xhr_event = ReadyStateChange nat nat | OnError | OnTimeout

definition resolve :: "bool \<Rightarrow> promise \<Rightarrow> promise" where
  "resolve b p = (case p of Pending \<Rightarrow> Resolved b | Resolved c \<Rightarrow> Resolved c)"

fun canReach_event :: "xhr_event \<Rightarrow> promise \<Rightarrow> promise" where
  "canReach_event (ReadyStateChange readyState xstatus) p =
     (if readyState = 4 then resolve (200 \<le> xstatus \<and> xstatus < 300) p else p)"
| "canReach_event OnError p = resolve False p"
| "canReach_event OnTimeout p = resolve False p"

definition canReach :: "jsval \<Rightarrow> jsval \<Rightarrow> xhr_event list \<Rightarrow> promise \<times> request list" where
  "canReach url timeout0 evs =
     (let timeout = (if timeout0 = JUndefined then JNum 100 else timeout0) in
      if \<not> truthy url then (Resolved False, [])
      else (fold canReach_event evs Pending,
            [\<lparr> rq_method = ''HEAD'', rq_url = url, rq_headers = [], rq_body = None,
               rq_timeout = Some timeout \<rparr>]))"

section \<open>The instance class (second version of Server.js)\<close>

text \<open>The fields of one \<^verbatim>\<open>new Server()\<close>, with the requests it has issued and the console.\<close>

record client =
  this_error :: jsval
  this_status :: jsval
  this_errorLevel :: nat
  this_con :: "nat option"
  this_method :: string
  this_src :: jsval
  this_contentType :: string
  this_obj :: jsval
  this_params :: string
  this_cbf :: jsval
  this_net :: "request list"
  this_console :: "string list"

definition new_Server :: client where
  "new_Server = \<lparr> this_error = JBool False, this_status = JBool False, this_errorLevel = 0,
     this_con = None, this_method = ''POST'', this_src = JBool False,
     this_contentType = ''application/x-www-form-urlencoded'', this_obj = JBool False,
     this_params = [], this_cbf = JBool False, this_net = [], this_console = [] \<rparr>"

text \<open>\<^verbatim>\<open>a && b\<close>\<close>

definition js_and :: "jsval \<Rightarrow> jsval \<Rightarrow> jsval" where
  "js_and a b = (if truthy a then b else a)"

definition setError :: "client \<Rightarrow> string \<Rightarrow> nat \<Rightarrow> int \<Rightarrow> bool \<times> client" where
  "setError s m level st =
     (False, s\<lparr> this_error := JStr m, this_errorLevel := level, this_status := JNum st \<rparr>)"

definition setWarning :: "client \<Rightarrow> string \<Rightarrow> nat \<Rightarrow> int \<Rightarrow> bool \<times> client" where
  "setWarning s m level st =
     (True, s\<lparr> this_error := JStr m, this_errorLevel := level, this_status := JNum st \<rparr>)"

definition this_checkArgs :: "client \<Rightarrow> jsval \<Rightarrow> error + (bool \<times> client)" where
  "this_checkArgs s q0 =
     (let q = default_false q0 in
      if \<not> (typeof q \<in> set [''array'', ''object'']) then Inr (False, s)
      else and_then (js_get q ''src'') (\<lambda>v.
        if \<not> truthy v then Inr (setError s ''URL destination not specified'' 0x01 0x0001)
        else and_then (js_get q ''args'') (\<lambda>a.
          if \<not> truthy a then Inr (setWarning s ''No arguments specified'' 0x10 0x0001)
          else Inr (True, s))))"

definition checkObj :: "client \<Rightarrow> bool" where
  "checkObj s = (typeof (this_obj s) \<in> set [''array'', ''object''])"

definition this_getSrc :: "client \<Rightarrow> error + jsval" where
  "this_getSrc s =
     (if \<not> checkObj s then Inr (JBool False)
      else and_then (js_get (this_obj s) ''src'') (\<lambda>v.
        Inr (if typeof v = ''string'' then v else JBool False)))"

definition urlEncode :: "jsval \<Rightarrow> jsval" where
  "urlEncode q0 =
     (let q = default_false q0 in case q of JStr t \<Rightarrow> JStr (encodeURI t) | _ \<Rightarrow> q)"

text \<open>The loop of the instance \<^verbatim>\<open>getParams\<close>: here \<^verbatim>\<open>i++\<close> runs on every pair.\<close>

fun this_getParams_loop :: "env \<Rightarrow> (string \<times> jsval) list \<Rightarrow> string \<Rightarrow> nat \<Rightarrow> string" where
  "this_getParams_loop e [] tmp i = tmp"
| "this_getParams_loop e ((item, val) # rest) tmp i =
     this_getParams_loop e rest
       (tmp @ (if i = 0
               then ToString e (urlEncode (JStr item)) @ ''='' @ ToString e (urlEncode val)
               else ''&'' @ ToString e (urlEncode (JStr item)) @ ''='' @ ToString e (urlEncode val)))
       (i + 1)"

text \<open>
  \<^verbatim>\<open>typeof null\<close> is \<^verbatim>\<open>"object"\<close>, and the instance version has no truthiness test on
  \<^verbatim>\<open>args\<close>: \<^verbatim>\<open>Object.entries(null)\<close> throws a TypeError.
\<close>

definition this_getParams :: "env \<Rightarrow> client \<Rightarrow> error + string" where
  "this_getParams e s =
     (if \<not> checkObj s then Inr []
      else and_then (js_get (this_obj s) ''args'') (\<lambda>a.
        if \<not> (typeof a \<in> set [''array'', ''object'']) then Inr []
        else (case a of JObj kvs \<Rightarrow> Inr (this_getParams_loop e kvs [] 0) | _ \<Rightarrow> Inl TypeError)))"

definition this_setMethod :: "client \<Rightarrow> error + client" where
  "this_setMethod s =
     (if \<not> checkObj s then Inr (s\<lparr> this_method := ''POST'' \<rparr>)
      else and_then (js_get (this_obj s) ''method'') (\<lambda>m.
        Inr (s\<lparr> this_method :=
          (if truthy m \<and> typeof m = ''string''
           then toUpperCase (case m of JStr t \<Rightarrow> t | _ \<Rightarrow> []) else ''POST'') \<rparr>)))"

definition this_setContentType :: "client \<Rightarrow> error + client" where
  "this_setContentType s =
     (if \<not> checkObj s then Inr (s\<lparr> this_contentType := ''application/x-www-form-urlencoded'' \<rparr>)
      else and_then (js_get (this_obj s) ''content-type'') (\<lambda>m.
        Inr (s\<lparr> this_contentType :=
          (if truthy m \<and> typeof m = ''string''
           then toUpperCase (case m of JStr t \<Rightarrow> t | _ \<Rightarrow> [])
           else ''application/x-www-form-urlencoded'') \<rparr>)))"

definition this_setCallbackFunction :: "client \<Rightarrow> error + jsval" where
  "this_setCallbackFunction s =
     (if checkObj s then
        and_then (js_get (this_obj s) ''func'') (\<lambda>a.
        and_then (js_get (this_obj s) ''cbf'') (\<lambda>b.
        and_then (js_get (this_obj s) ''callback'') (\<lambda>c.
        and_then (js_get (this_obj s) ''callback-function'') (\<lambda>d.
          Inr (js_or (js_or (js_or (js_or a b) c) d) (JBool False))))))
      else Inr (JBool False))"

definition this_checkReq :: "client \<Rightarrow> jsval" where
  "this_checkReq s = js_and (js_and (JStr (this_method s)) (JStr (this_params s))) (this_obj s)"

definition this_connect :: "client \<Rightarrow> client" where
  "this_connect s =
     (if \<not> truthy (this_checkReq s) then s
      else s\<lparr> this_con := Some (length (this_net s)),
             this_net := this_net s @ [\<lparr> rq_method = this_method s, rq_url = this_src s,
               rq_headers = [(''Content-type'', this_contentType s)],
               rq_body = Some (this_params s), rq_timeout = None \<rparr>] \<rparr>)"

definition prepareAndSend :: "env \<Rightarrow> client \<Rightarrow> jsval \<Rightarrow> jsval \<Rightarrow> jsval \<Rightarrow> error + client" where
  "prepareAndSend e s args cbf_arg func_arg =
     (let s1 = s\<lparr> this_obj := args \<rparr> in
      and_then (this_getSrc s1) (\<lambda>v.
      and_then (this_getParams e (s1\<lparr> this_src := v \<rparr>)) (\<lambda>p.
      and_then (this_setMethod (s1\<lparr> this_src := v, this_params := p \<rparr>)) (\<lambda>s2.
      and_then (this_setContentType s2) (\<lambda>s3.
      and_then
        (if func_arg = JBool False then Inr cbf_arg
         else if cbf_arg = JBool True then Inr func_arg
         else this_setCallbackFunction s3)
        (\<lambda>f. Inr (this_connect (s3\<lparr> this_cbf := f \<rparr>))))))))"

definition this_send :: "env \<Rightarrow> client \<Rightarrow> jsval \<Rightarrow> jsval \<Rightarrow> jsval \<Rightarrow> error + client" where
  "this_send e s args0 cbf0 func0 =
     (let args = default_false args0; cbf_arg = default_false cbf0; func_arg = default_false func0 in
      and_then (this_checkArgs s args) (\<lambda>(ok, s1).
        if ok then prepareAndSend e s1 args cbf_arg func_arg
        else Inr (s1\<lparr> this_console := this_console s1 @ [''Missing params''] \<rparr>)))"

text \<open>
  \<^verbatim>\<open>processResponse\<close>. The line \<^verbatim>\<open>let resp = this.con.responseText\<close> has no semicolon and
  the next line starts with a parenthesis, so the two lines are one declaration,
  \<^verbatim>\<open>let resp = this.con.responseText(resp.match(..) && resp.match(..)) ? .. : null\<close>.
  Its initialiser evaluates the argument \<^verbatim>\<open>resp.match(..)\<close> while \<^verbatim>\<open>resp\<close> is still
  uninitialised, which throws a ReferenceError; the call of the callback on the line after
  is never reached.
\<close>

definition processResponse :: "env \<Rightarrow> client \<Rightarrow> string \<Rightarrow> reaction" where
  "processResponse e s responseText =
     (if \<not> truthy (this_cbf s) then ConsoleWarn ''No callback specified''
      else Throws ReferenceError)"

definition handleReadyStateChange :: "env \<Rightarrow> client \<Rightarrow> nat \<Rightarrow> nat \<Rightarrow> string \<Rightarrow> reaction" where
  "handleReadyStateChange e s readyState xstatus responseText =
     (if readyState \<noteq> 4 then NoReaction
      else if 200 \<le> xstatus \<and> xstatus < 300 then processResponse e s responseText
      else NoReaction)"

section \<open>Observations, an example page, and the specification's wording\<close>

text \<open>A field of the class after a call of \<^verbatim>\<open>send\<close> (\<open>None\<close> when the call threw).\<close>

definition after :: "error + (bool \<times> server) \<Rightarrow> (server \<Rightarrow> 'a) \<Rightarrow> 'a option" where
  "after r f = (case r of Inl x \<Rightarrow> None | Inr p \<Rightarrow> Some (f (snd p)))"

definition this_after :: "error + client \<Rightarrow> (client \<Rightarrow> 'a) \<Rightarrow> 'a option" where
  "this_after r f = (case r of Inl x \<Rightarrow> None | Inr s \<Rightarrow> Some (f s))"

text \<open>A second \<^verbatim>\<open>send\<close> on the class, after a first one.\<close>

definition then_send ::
  "env \<Rightarrow> error + (bool \<times> server) \<Rightarrow> jsval \<Rightarrow> jsval \<Rightarrow> jsval \<Rightarrow> error + (bool \<times> server)" where
  "then_send e r args cbf_arg func_arg = and_then r (\<lambda>p. send e (snd p) args cbf_arg func_arg)"

definition this_then_send ::
  "env \<Rightarrow> error + client \<Rightarrow> jsval \<Rightarrow> jsval \<Rightarrow> jsval \<Rightarrow> error + client" where
  "this_then_send e r args cbf_arg func_arg = and_then r (\<lambda>s. this_send e s args cbf_arg func_arg)"

text \<open>
  The page of the specification's examples, at \<^verbatim>\<open>https://example.com/app/index.html\<close>, with
  no global bound, the usual string conversions, and \<^verbatim>\<open>JSON.parse\<close> tabulated on the one
  text the examples parse.
\<close>

fun decimal :: "nat \<Rightarrow> string" where
  "decimal n = (if n < 10 then [''0123456789'' ! n] else decimal (n div 10) @ [''0123456789'' ! (n mod 10)])"

declare decimal.simps [simp del]

fun example_to_string :: "jsval \<Rightarrow> string" where
  "example_to_string JUndefined = ''undefined''"
| "example_to_string JNull = ''null''"
| "example_to_string (JBool b) = (if b then ''true'' else ''false'')"
| "example_to_string (JNum n) = (if n < 0 then ''-'' @ decimal (nat (- n)) else decimal (nat n))"
| "example_to_string (JStr t) = t"
| "example_to_string (JFun f) = ''function () { }''"
| "example_to_string (JObj kvs) = ''[object Object]''"

definition example_parse :: "string \<Rightarrow> jsval option" where
  "example_parse t =
     (if t = [CHR ''{'', CHR 0x22, CHR ''k'', CHR 0x22, CHR '':'', CHR ''1'', CHR ''}'']
      then Some (JObj [(''k'', JNum 1)]) else None)"

definition no_globals :: "string \<Rightarrow> jsval" where
  "no_globals name = JUndefined"

definition example_page :: env where
  "example_page = \<lparr> location_protocol = ''https:'', location_host = ''example.com'',
     location_hostname = ''example.com'', location_pathname = ''/app/index.html'',
     window = no_globals, to_string = example_to_string, JSON_parse = example_parse \<rparr>"

text \<open>
  The encoded parameter string as the specification words it: the pairs \<^verbatim>\<open>key=value\<close>,
  strings percent-encoded and other values passed through, joined by \<^verbatim>\<open>&\<close>.
\<close>

definition enc_pair :: "env \<Rightarrow> string \<times> jsval \<Rightarrow> string" where
  "enc_pair e kv =
     encodeURI (fst kv) @ ''='' @ (case snd kv of JStr t \<Rightarrow> encodeURI t | v \<Rightarrow> to_string e v)"

text \<open>The pairs of an object with every \<^verbatim>\<open>undefined\<close> value replaced by \<^verbatim>\<open>false\<close>.\<close>

definition undefined_as_false :: "(string \<times> jsval) list \<Rightarrow> (string \<times> jsval) list" where
  "undefined_as_false kvs = map (\<lambda>kv. (fst kv, default_false (snd kv))) kvs"

fun join_amp :: "string list \<Rightarrow> string" where
  "join_amp [] = []"
| "join_amp [x] = x"
| "join_amp (x # y # ys) = x @ ''&'' @ join_amp (y # ys)"

text \<open>
  The callback as the specification's data model words it: the value of the first key
  that is present, in the order \<^verbatim>\<open>callback\<close>, \<^verbatim>\<open>cbf\<close>, \<^verbatim>\<open>func\<close>, \<^verbatim>\<open>callback-function\<close>.
\<close>

fun first_present :: "(string \<times> jsval) list \<Rightarrow> string list \<Rightarrow> jsval option" where
  "first_present cfg [] = None"
| "first_present cfg (k # ks) =
     (case map_of cfg k of Some v \<Rightarrow> Some v | None \<Rightarrow> first_present cfg ks)"

definition spec_callback :: "(string \<times> jsval) list \<Rightarrow> jsval option" where
  "spec_callback cfg = first_present cfg [''callback'', ''cbf'', ''func'', ''callback-function'']"

text \<open>
  The directory component as the specification words it: the file name after the last
  slash is stripped exactly when its extension, the text after its last dot, is one of
  php, js, css, html, asp in any case.
\<close>

definition spec_dirname :: "string \<Rightarrow> string" where
  "spec_dirname t =
     (let file = rev (takeWhile (\<lambda>c. c \<noteq> CHR ''/'') (rev t));
          dir = rev (dropWhile (\<lambda>c. c \<noteq> CHR ''/'') (rev t))
      in if CHR ''.'' \<in> set file
            \<and> toLowerCase (last_split file) \<in> set [''php'', ''js'', ''css'', ''html'', ''asp'']
         then dir else t)"

text \<open>The events of an XMLHttpRequest that settle the promise of \<^verbatim>\<open>canReach\<close>.\<close>

fun settles :: "xhr_event \<Rightarrow> bool" where
  "settles (ReadyStateChange readyState xstatus) = (readyState = 4)"
| "settles OnError = True"
| "settles OnTimeout = True"

section \<open>Each step of send on a configuration object\<close>

text \<open>
  On an object every property read succeeds, so each step of \<^verbatim>\<open>send\<close> returns, and
  the fields it writes can be given in closed form.
\<close>

lemma default_false_simps [simp]:
  "default_false (JObj kvs) = JObj kvs" "default_false (JStr t) = JStr t"
  "default_false (JBool b) = JBool b" "default_false (JFun g) = JFun g"
  "default_false (JNum n) = JNum n" "default_false JNull = JNull"
  "default_false JUndefined = JBool False"
  by (simp_all add: default_false_def)

lemma ToString_url_encode:
  "ToString e (url_encode v) = (case default_false v of JStr t \<Rightarrow> encodeURI t | w \<Rightarrow> to_string e w)"
  by (cases v) (simp_all add: ToString_def url_encode_def)

lemma join_amp_Cons: "join_amp (x # xs) = x @ concat (map (\<lambda>y. ''&'' @ y) xs)"
  by (induction xs arbitrary: x) simp_all

lemma getParams_loop_Suc:
  "getParams_loop e kvs tmp (Suc n)
     = tmp @ concat (map (\<lambda>kv. ''&'' @ enc_pair e kv) (undefined_as_false kvs))"
  by (induction kvs arbitrary: tmp)
    (auto simp: enc_pair_def ToString_url_encode undefined_as_false_def)

lemma getParams_loop_join:
  "getParams_loop e kvs [] 0 = join_amp (map (enc_pair e) (undefined_as_false kvs))"
proof (cases kvs)
  case Nil
  then show ?thesis by (simp add: undefined_as_false_def)
next
  case (Cons kv rest)
  obtain k v where kv: "kv = (k, v)" by (cases kv)
  have "getParams_loop e ((k, v) # rest) [] 0
      = enc_pair e (k, default_false v)
        @ concat (map (\<lambda>kv. ''&'' @ enc_pair e kv) (undefined_as_false rest))"
    by (simp add: getParams_loop_Suc enc_pair_def ToString_url_encode)
  then show ?thesis
    unfolding Cons kv
    by (simp add: join_amp_Cons undefined_as_false_def comp_def)
qed

lemma getParams_object:
  "obj s = JObj cfg \<Longrightarrow>
   getParams e s = Inr (case js_prop cfg ''args'' of
       JObj kvs \<Rightarrow> join_amp (map (enc_pair e) (undefined_as_false kvs)) | _ \<Rightarrow> [])"
  by (simp add: getParams_def and_then_def getParams_loop_join split: jsval.splits)

lemma checkArgs_object:
  "truthy (js_prop cfg ''src'') \<Longrightarrow>
   checkArgs s (JObj cfg) =
     Inr (True, s\<lparr> status := (if truthy (js_prop cfg ''args'') then status s else JNum 1),
       error := (if truthy (js_prop cfg ''args'') then error s else JStr ''No arguments were specified.''),
       error_level := (if truthy (js_prop cfg ''args'') then error_level s else 16) \<rparr>)"
  by (simp add: checkArgs_def and_then_def Let_def)

lemma getSrc_object:
  "obj s = JObj cfg \<Longrightarrow>
   getSrc s = Inr (if typeof (js_prop cfg ''src'') = ''string'' then js_prop cfg ''src'' else JBool False)"
  by (simp add: getSrc_def and_then_def)

lemma setMethod_object:
  "obj s = JObj cfg \<Longrightarrow>
   setMethod s = Inr (s\<lparr> method := (case js_prop cfg ''method'' of
       JStr t \<Rightarrow> if t \<noteq> [] then toUpperCase t else method s | _ \<Rightarrow> method s) \<rparr>)"
  by (simp add: setMethod_def and_then_def check_obj_def split: jsval.splits)

lemma setContentType_object:
  "obj s = JObj cfg \<Longrightarrow>
   setContentType s = Inr (s\<lparr> contentType := (case js_prop cfg ''content-type'' of
       JStr t \<Rightarrow> if t \<noteq> [] then JStr (toUpperCase t) else contentType s | _ \<Rightarrow> contentType s) \<rparr>)"
  by (simp add: setContentType_def and_then_def check_obj_def split: jsval.splits)

lemma setCallbackFunction_object:
  "obj s = JObj cfg \<Longrightarrow>
   setCallbackFunction s = Inr (s\<lparr> cbf := js_or (js_or (js_or (js_or (js_prop cfg ''func'') (js_prop cfg ''cbf''))
      (js_prop cfg ''callback'')) (js_prop cfg ''callback-function'')) (JBool False) \<rparr>)"
  by (simp add: setCallbackFunction_def and_then_def check_obj_def)

lemma validateSources_update:
  "validateSources e s = s\<lparr> src := (case src s of
      JStr t \<Rightarrow> if \<not> indexOf_found (toLowerCase t) ''http''
        then JStr (location_protocol e @ ''//''
                 @ (if location_host e \<noteq> [] then location_host e else location_hostname e)
                 @ ToString e (dirname (JStr (location_pathname e))) @ t)
        else src s
    | _ \<Rightarrow> src s) \<rparr>"
  by (simp add: validateSources_def split: jsval.splits)

lemma send_object:
  assumes "truthy (js_prop cfg ''src'')"
  shows "send e s (JObj cfg) c f =
    Inr (connect (s\<lparr>
      status := (if truthy (js_prop cfg ''args'') then status s else JNum 1),
      error := (if truthy (js_prop cfg ''args'') then error s else JStr ''No arguments were specified.''),
      error_level := (if truthy (js_prop cfg ''args'') then error_level s else 16),
      obj := JObj cfg,
      src := (case js_prop cfg ''src'' of
          JStr t \<Rightarrow> if url_auto_resolve s = JBool False \<and> \<not> indexOf_found (toLowerCase t) ''http''
            then JStr (location_protocol e @ ''//''
                 @ (if location_host e \<noteq> [] then location_host e else location_hostname e)
                 @ ToString e (dirname (JStr (location_pathname e))) @ t)
            else JStr t
        | _ \<Rightarrow> JBool False),
      params := (case js_prop cfg ''args'' of
          JObj kvs \<Rightarrow> join_amp (map (enc_pair e) (undefined_as_false kvs)) | _ \<Rightarrow> []),
      method := (case js_prop cfg ''method'' of
          JStr t \<Rightarrow> if t \<noteq> [] then toUpperCase t else method s | _ \<Rightarrow> method s),
      contentType := (case js_prop cfg ''content-type'' of
          JStr t \<Rightarrow> if t \<noteq> [] then JStr (toUpperCase t) else contentType s | _ \<Rightarrow> contentType s),
      cbf := (if default_false f = JBool False \<and> default_false c \<noteq> JBool False then default_false c
              else if default_false c = JBool True \<and> default_false f \<noteq> JBool False then default_false f
              else js_or (js_or (js_or (js_or (js_prop cfg ''func'') (js_prop cfg ''cbf''))
                (js_prop cfg ''callback'')) (js_prop cfg ''callback-function'')) (JBool False)) \<rparr>))"
proof -
  define s2 where "s2 = s\<lparr>
      status := (if truthy (js_prop cfg ''args'') then status s else JNum 1),
      error := (if truthy (js_prop cfg ''args'') then error s else JStr ''No arguments were specified.''),
      error_level := (if truthy (js_prop cfg ''args'') then error_level s else 16),
      obj := JObj cfg \<rparr>"
  define v where "v = (if typeof (js_prop cfg ''src'') = ''string'' then js_prop cfg ''src'' else JBool False)"
  define w where "w = (case js_prop cfg ''src'' of
          JStr t \<Rightarrow> if url_auto_resolve s = JBool False \<and> \<not> indexOf_found (toLowerCase t) ''http''
            then JStr (location_protocol e @ ''//''
                 @ (if location_host e \<noteq> [] then location_host e else location_hostname e)
                 @ ToString e (dirname (JStr (location_pathname e))) @ t)
            else JStr t
        | _ \<Rightarrow> JBool False)"
  define p where "p = (case js_prop cfg ''args'' of
          JObj kvs \<Rightarrow> join_amp (map (enc_pair e) (undefined_as_false kvs)) | _ \<Rightarrow> [])"
  define m where "m = (case js_prop cfg ''method'' of
          JStr t \<Rightarrow> if t \<noteq> [] then toUpperCase t else method s | _ \<Rightarrow> method s)"
  define ct where "ct = (case js_prop cfg ''content-type'' of
          JStr t \<Rightarrow> if t \<noteq> [] then JStr (toUpperCase t) else contentType s | _ \<Rightarrow> contentType s)"
  define c' where "c' = default_false c"
  define f' where "f' = default_false f"
  define cb where "cb = (if f' = JBool False \<and> c' \<noteq> JBool False then c'
              else if c' = JBool True \<and> f' \<noteq> JBool False then f'
              else js_or (js_or (js_or (js_or (js_prop cfg ''func'') (js_prop cfg ''cbf''))
                (js_prop cfg ''callback'')) (js_prop cfg ''callback-function'')) (JBool False))"
  have o2: "obj s2 = JObj cfg" and u2: "url_auto_resolve s2 = url_auto_resolve s"
    and m2: "method s2 = method s" and c2: "contentType s2 = contentType s"
    by (simp_all add: s2_def)
  have 1: "checkArgs s (JObj cfg) = Inr (True, s2\<lparr> obj := obj s \<rparr>)"
    by (simp add: checkArgs_object [OF assms] s2_def)
  have 2: "s2\<lparr> obj := obj s, obj := JObj cfg \<rparr> = s2"
    by (simp add: s2_def)
  have 3: "getSrc s2 = Inr v"
    by (simp add: getSrc_object [OF o2] v_def)
  have 4: "(if url_auto_resolve (s2\<lparr> src := v \<rparr>) = JBool False
            then validateSources e (s2\<lparr> src := v \<rparr>) else s2\<lparr> src := v \<rparr>) = s2\<lparr> src := w \<rparr>"
    by (cases "js_prop cfg ''src''") (simp_all add: validateSources_update u2 v_def w_def)
  have 5: "getParams e (s2\<lparr> src := w \<rparr>) = Inr p"
    by (simp add: getParams_object [where cfg = cfg] o2 p_def)
  have 6: "setMethod (s2\<lparr> src := w, params := p \<rparr>) = Inr (s2\<lparr> src := w, params := p, method := m \<rparr>)"
    by (cases "js_prop cfg ''method''") (simp_all add: setMethod_object [where cfg = cfg] o2 m2 m_def)
  have 7: "setContentType (s2\<lparr> src := w, params := p, method := m \<rparr>)
      = Inr (s2\<lparr> src := w, params := p, method := m, contentType := ct \<rparr>)"
    by (cases "js_prop cfg ''content-type''") (simp_all add: setContentType_object [where cfg = cfg] o2 c2 ct_def)
  define A where "A \<longleftrightarrow> f' = JBool False \<and> c' \<noteq> JBool False"
  define B where "B \<longleftrightarrow> c' = JBool True \<and> f' \<noteq> JBool False"
  define s6 where "s6 = s2\<lparr> src := w, params := p, method := m, contentType := ct \<rparr>"
  have o6: "obj s6 = JObj cfg"
    by (simp add: s6_def o2)
  have cb: "cb = (if A then c' else if B then f'
      else js_or (js_or (js_or (js_or (js_prop cfg ''func'') (js_prop cfg ''cbf''))
                (js_prop cfg ''callback'')) (js_prop cfg ''callback-function'')) (JBool False))"
    unfolding cb_def A_def B_def ..
  have "(if A then Inr (s6\<lparr> cbf := c' \<rparr>) else if B then Inr (s6\<lparr> cbf := f' \<rparr>) else setCallbackFunction s6)
      = Inr (s6\<lparr> cbf := cb \<rparr>)"
    by (cases A; cases B) (simp_all add: cb setCallbackFunction_object [OF o6])
  then have 8: "(if f' = JBool False \<and> c' \<noteq> JBool False
            then Inr (s2\<lparr> src := w, params := p, method := m, contentType := ct, cbf := c' \<rparr>)
            else if c' = JBool True \<and> f' \<noteq> JBool False
            then Inr (s2\<lparr> src := w, params := p, method := m, contentType := ct, cbf := f' \<rparr>)
            else setCallbackFunction (s2\<lparr> src := w, params := p, method := m, contentType := ct \<rparr>))
      = Inr (s2\<lparr> src := w, params := p, method := m, contentType := ct, cbf := cb \<rparr>)"
    unfolding A_def B_def s6_def .
  have "send e s (JObj cfg) c f
      = Inr (connect (s2\<lparr> src := w, params := p, method := m, contentType := ct, cbf := cb \<rparr>))"
    unfolding send_def Let_def default_false_simps c'_def [symmetric] f'_def [symmetric]
    by (simp only: 1 2 3 4 5 6 7 8 and_then_def Let_def sum.case prod.case simp_thms if_False)
  then show ?thesis
    unfolding s2_def w_def p_def m_def ct_def cb_def c'_def f'_def by simp
qed

subsection \<open>The instance class\<close>

lemma ToString_urlEncode:
  "ToString e (urlEncode v) = (case default_false v of JStr t \<Rightarrow> encodeURI t | w \<Rightarrow> to_string e w)"
  by (cases v) (simp_all add: ToString_def urlEncode_def)

lemma this_getParams_loop_Suc:
  "this_getParams_loop e kvs tmp (Suc n)
     = tmp @ concat (map (\<lambda>kv. ''&'' @ enc_pair e kv) (undefined_as_false kvs))"
  by (induction kvs arbitrary: tmp n)
    (auto simp: enc_pair_def ToString_urlEncode undefined_as_false_def)

lemma this_getParams_loop_join:
  "this_getParams_loop e kvs [] 0 = join_amp (map (enc_pair e) (undefined_as_false kvs))"
proof (cases kvs)
  case Nil
  then show ?thesis by (simp add: undefined_as_false_def)
next
  case (Cons kv rest)
  obtain k v where kv: "kv = (k, v)" by (cases kv)
  have "this_getParams_loop e ((k, v) # rest) [] 0
      = enc_pair e (k, default_false v)
        @ concat (map (\<lambda>kv. ''&'' @ enc_pair e kv) (undefined_as_false rest))"
    by (simp add: this_getParams_loop_Suc enc_pair_def ToString_urlEncode)
  then show ?thesis
    unfolding Cons kv
    by (simp add: join_amp_Cons undefined_as_false_def comp_def)
qed

lemma this_getParams_object:
  "this_obj s = JObj cfg \<Longrightarrow> js_prop cfg ''args'' \<noteq> JNull \<Longrightarrow>
   this_getParams e s = Inr (case js_prop cfg ''args'' of
       JObj kvs \<Rightarrow> join_amp (map (enc_pair e) (undefined_as_false kvs)) | _ \<Rightarrow> [])"
  by (simp add: this_getParams_def checkObj_def and_then_def this_getParams_loop_join split: jsval.splits)

lemma this_getParams_null:
  "this_obj s = JObj cfg \<Longrightarrow> js_prop cfg ''args'' = JNull \<Longrightarrow> this_getParams e s = Inl TypeError"
  by (simp add: this_getParams_def checkObj_def and_then_def)

lemma this_checkArgs_object:
  "truthy (js_prop cfg ''src'') \<Longrightarrow>
   this_checkArgs s (JObj cfg) =
     Inr (True, s\<lparr> this_error := (if truthy (js_prop cfg ''args'') then this_error s else JStr ''No arguments specified''),
       this_errorLevel := (if truthy (js_prop cfg ''args'') then this_errorLevel s else 16),
       this_status := (if truthy (js_prop cfg ''args'') then this_status s else JNum 1) \<rparr>)"
  by (simp add: this_checkArgs_def and_then_def setWarning_def Let_def)

lemma this_getSrc_object:
  "this_obj s = JObj cfg \<Longrightarrow>
   this_getSrc s = Inr (if typeof (js_prop cfg ''src'') = ''string'' then js_prop cfg ''src'' else JBool False)"
  by (simp add: this_getSrc_def checkObj_def and_then_def)

lemma this_setMethod_object:
  "this_obj s = JObj cfg \<Longrightarrow>
   this_setMethod s = Inr (s\<lparr> this_method := (case js_prop cfg ''method'' of
       JStr t \<Rightarrow> if t \<noteq> [] then toUpperCase t else ''POST'' | _ \<Rightarrow> ''POST'') \<rparr>)"
  by (simp add: this_setMethod_def and_then_def checkObj_def split: jsval.splits)

lemma this_setContentType_object:
  "this_obj s = JObj cfg \<Longrightarrow>
   this_setContentType s = Inr (s\<lparr> this_contentType := (case js_prop cfg ''content-type'' of
       JStr t \<Rightarrow> if t \<noteq> [] then toUpperCase t else ''application/x-www-form-urlencoded''
     | _ \<Rightarrow> ''application/x-www-form-urlencoded'') \<rparr>)"
  by (simp add: this_setContentType_def and_then_def checkObj_def split: jsval.splits)

lemma this_setCallbackFunction_object:
  "this_obj s = JObj cfg \<Longrightarrow>
   this_setCallbackFunction s = Inr (js_or (js_or (js_or (js_or (js_prop cfg ''func'') (js_prop cfg ''cbf''))
      (js_prop cfg ''callback'')) (js_prop cfg ''callback-function'')) (JBool False))"
  by (simp add: this_setCallbackFunction_def and_then_def checkObj_def)

lemma this_send_object:
  assumes "truthy (js_prop cfg ''src'')" and "js_prop cfg ''args'' \<noteq> JNull"
  shows "this_send e s (JObj cfg) c f =
    Inr (this_connect (s\<lparr>
      this_error := (if truthy (js_prop cfg ''args'') then this_error s else JStr ''No arguments specified''),
      this_errorLevel := (if truthy (js_prop cfg ''args'') then this_errorLevel s else 16),
      this_status := (if truthy (js_prop cfg ''args'') then this_status s else JNum 1),
      this_obj := JObj cfg,
      this_src := (if typeof (js_prop cfg ''src'') = ''string'' then js_prop cfg ''src'' else JBool False),
      this_params := (case js_prop cfg ''args'' of
          JObj kvs \<Rightarrow> join_amp (map (enc_pair e) (undefined_as_false kvs)) | _ \<Rightarrow> []),
      this_method := (case js_prop cfg ''method'' of
          JStr t \<Rightarrow> if t \<noteq> [] then toUpperCase t else ''POST'' | _ \<Rightarrow> ''POST''),
      this_contentType := (case js_prop cfg ''content-type'' of
          JStr t \<Rightarrow> if t \<noteq> [] then toUpperCase t else ''application/x-www-form-urlencoded''
        | _ \<Rightarrow> ''application/x-www-form-urlencoded''),
      this_cbf := (if default_false f = JBool False then default_false c
              else if default_false c = JBool True then default_false f
              else js_or (js_or (js_or (js_or (js_prop cfg ''func'') (js_prop cfg ''cbf''))
                (js_prop cfg ''callback'')) (js_prop cfg ''callback-function'')) (JBool False)) \<rparr>))"
proof -
  define s1 where "s1 = s\<lparr>
      this_error := (if truthy (js_prop cfg ''args'') then this_error s else JStr ''No arguments specified''),
      this_errorLevel := (if truthy (js_prop cfg ''args'') then this_errorLevel s else 16),
      this_status := (if truthy (js_prop cfg ''args'') then this_status s else JNum 1) \<rparr>"
  define v where "v = (if typeof (js_prop cfg ''src'') = ''string'' then js_prop cfg ''src'' else JBool False)"
  define p where "p = (case js_prop cfg ''args'' of
          JObj kvs \<Rightarrow> join_amp (map (enc_pair e) (undefined_as_false kvs)) | _ \<Rightarrow> [])"
  define m where "m = (case js_prop cfg ''method'' of
          JStr t \<Rightarrow> if t \<noteq> [] then toUpperCase t else ''POST'' | _ \<Rightarrow> ''POST'')"
  define ct where "ct = (case js_prop cfg ''content-type'' of
          JStr t \<Rightarrow> if t \<noteq> [] then toUpperCase t else ''application/x-www-form-urlencoded''
        | _ \<Rightarrow> ''application/x-www-form-urlencoded'')"
  define c' where "c' = default_false c"
  define f' where "f' = default_false f"
  define A where "A \<longleftrightarrow> f' = JBool False"
  define B where "B \<longleftrightarrow> c' = JBool True"
  define cb where "cb = (if A then c' else if B then f'
              else js_or (js_or (js_or (js_or (js_prop cfg ''func'') (js_prop cfg ''cbf''))
                (js_prop cfg ''callback'')) (js_prop cfg ''callback-function'')) (JBool False))"
  define s2 where "s2 = s1\<lparr> this_obj := JObj cfg \<rparr>"
  have o2: "this_obj s2 = JObj cfg"
    by (simp add: s2_def)
  have 1: "this_checkArgs s (JObj cfg) = Inr (True, s1)"
    by (simp add: this_checkArgs_object [OF assms(1)] s1_def)
  have 3: "this_getSrc s2 = Inr v"
    by (simp add: this_getSrc_object [OF o2] v_def)
  have 5: "this_getParams e (s2\<lparr> this_src := v \<rparr>) = Inr p"
    by (simp add: this_getParams_object [where cfg = cfg] o2 assms(2) p_def)
  have 6: "this_setMethod (s2\<lparr> this_src := v, this_params := p \<rparr>)
      = Inr (s2\<lparr> this_src := v, this_params := p, this_method := m \<rparr>)"
    by (simp add: this_setMethod_object [where cfg = cfg] o2 m_def)
  have 7: "this_setContentType (s2\<lparr> this_src := v, this_params := p, this_method := m \<rparr>)
      = Inr (s2\<lparr> this_src := v, this_params := p, this_method := m, this_contentType := ct \<rparr>)"
    by (simp add: this_setContentType_object [where cfg = cfg] o2 ct_def)
  define s6 where "s6 = s2\<lparr> this_src := v, this_params := p, this_method := m, this_contentType := ct \<rparr>"
  have o6: "this_obj s6 = JObj cfg"
    by (simp add: s6_def o2)
  have 8: "(if A then Inr c' else if B then Inr f' else this_setCallbackFunction s6) = Inr cb"
    by (cases A; cases B) (simp_all add: cb_def this_setCallbackFunction_object [OF o6])
  have "prepareAndSend e s1 (JObj cfg) c' f' = Inr (this_connect (s6\<lparr> this_cbf := cb \<rparr>))"
    unfolding prepareAndSend_def Let_def s2_def [symmetric]
    by (simp only: 3 5 6 7 8 [unfolded A_def B_def s6_def] and_then_def sum.case s6_def)
  then have "this_send e s (JObj cfg) c f = Inr (this_connect (s6\<lparr> this_cbf := cb \<rparr>))"
    unfolding this_send_def Let_def default_false_simps c'_def [symmetric] f'_def [symmetric]
    by (simp only: 1 and_then_def sum.case prod.case if_True)
  then show ?thesis
    unfolding s6_def s2_def s1_def v_def p_def m_def ct_def cb_def A_def B_def c'_def f'_def .
qed

section \<open>Unfolding rules for concrete inputs\<close>

lemmas enc_defs = ToString_def url_encode_def urlEncode_def encodeURI_def encode_char_def uri_keep_def
  pct_def hex_digit_def enc_pair_def undefined_as_false_def Let_def
lemmas case_defs = toUpperCase_def toLowerCase_def upper_char_def lower_char_def
lemmas static_defs = send_def checkArgs_def getSrc_def getParams_def setMethod_def setContentType_def
  setCallbackFunction_def check_obj_def checkReq_def connect_def validateSources_def and_then_def js_prop_def js_or_def
  Let_def
lemmas inst_defs = this_send_def prepareAndSend_def this_checkArgs_def this_getSrc_def this_getParams_def this_setMethod_def this_setContentType_def
  this_setCallbackFunction_def checkObj_def this_checkReq_def this_connect_def and_then_def js_prop_def js_or_def
  js_and_def setError_def setWarning_def Let_def
lemmas page_defs = example_page_def no_globals_def example_parse_def Server_init_def new_Server_def after_def this_after_def then_send_def this_then_send_def

section \<open>Validation and the precondition of connect\<close>

text \<open>
  Claim C1, as stated, at the configuration \<^verbatim>\<open>{src: "https://example.com/api"}\<close>: both
  versions pass validation with the warning recorded and an empty parameter string, and
  then issue no request; the static \<^verbatim>\<open>send\<close> returns \<^verbatim>\<open>false\<close>.
\<close>

theorem send_without_args_counterexample:
  "send example_page Server_init (JObj [(''src'', JStr ''https://example.com/api'')]) (JBool False) (JBool False)
     = Inr (False, Server_init\<lparr> status := JNum 1, error := JStr ''No arguments were specified.'',
        error_level := 16, obj := JObj [(''src'', JStr ''https://example.com/api'')],
        src := JStr ''https://example.com/api'' \<rparr>)
   \<and> after (send example_page Server_init (JObj [(''src'', JStr ''https://example.com/api'')])
        (JBool False) (JBool False)) net = Some []
   \<and> this_send example_page new_Server (JObj [(''src'', JStr ''https://example.com/api'')]) (JBool False) (JBool False)
     = Inr (new_Server\<lparr> this_error := JStr ''No arguments specified'', this_errorLevel := 16,
        this_status := JNum 1, this_obj := JObj [(''src'', JStr ''https://example.com/api'')],
        this_src := JStr ''https://example.com/api'' \<rparr>)
   \<and> this_after (this_send example_page new_Server (JObj [(''src'', JStr ''https://example.com/api'')])
        (JBool False) (JBool False)) this_net = Some []"
  by (simp add: static_defs inst_defs page_defs case_defs)

text \<open>
  Claim C1, amended: for every configuration object with a truthy \<^verbatim>\<open>src\<close> and an absent
  or falsy \<^verbatim>\<open>args\<close>, \<^verbatim>\<open>send\<close> passes validation, records the warning (level 0x10)
  and derives the empty parameter string; \<^verbatim>\<open>checkReq\<close> then fails because it requires
  the parameter string to be non-empty, so \<^verbatim>\<open>connect\<close> opens no connection and issues no
  request, and the static \<^verbatim>\<open>send\<close> returns \<^verbatim>\<open>false\<close>. The instance version behaves
  the same when \<^verbatim>\<open>args\<close> is not \<^verbatim>\<open>null\<close>.
\<close>

theorem send_without_args_no_request:
  assumes "truthy (js_prop cfg ''src'')" and "\<not> truthy (js_prop cfg ''args'')"
  shows "(\<exists>s'. send e s (JObj cfg) c f = Inr (False, s') \<and> params s' = [] \<and> \<not> checkReq s'
            \<and> error_level s' = 0x10 \<and> error s' = JStr ''No arguments were specified.''
            \<and> obj s' = JObj cfg \<and> net s' = net s \<and> con s' = con s)
       \<and> (js_prop cfg ''args'' \<noteq> JNull \<longrightarrow>
           (\<exists>t'. this_send e t (JObj cfg) c f = Inr t' \<and> this_params t' = []
              \<and> \<not> truthy (this_checkReq t') \<and> this_errorLevel t' = 0x10
              \<and> this_obj t' = JObj cfg \<and> this_net t' = this_net t \<and> this_con t' = this_con t))"
proof -
  have p: "(case js_prop cfg ''args'' of
          JObj kvs \<Rightarrow> join_amp (map (enc_pair e) (undefined_as_false kvs)) | _ \<Rightarrow> []) = []"
    using assms(2) by (cases "js_prop cfg ''args''") simp_all
  show ?thesis
    using assms(2)
    by (simp add: send_object [OF assms(1)] this_send_object [OF assms(1)] p connect_def checkReq_def
        this_connect_def this_checkReq_def js_and_def)
qed

theorem send_without_args_no_request_witness:
  "truthy (js_prop [(''src'', JStr ''/api'')] ''src'') \<and> \<not> truthy (js_prop [(''src'', JStr ''/api'')] ''args'')
   \<and> js_prop [(''src'', JStr ''/api'')] ''args'' \<noteq> JNull
   \<and> (\<exists>s'. send example_page Server_init (JObj [(''src'', JStr ''/api'')]) (JBool False) (JBool False) = Inr (False, s')
         \<and> params s' = [] \<and> net s' = [])
   \<and> (\<exists>t'. this_send example_page new_Server (JObj [(''src'', JStr ''/api'')]) (JBool False) (JBool False) = Inr t'
         \<and> this_params t' = [] \<and> this_net t' = [])"
  using send_without_args_no_request [of "[(''src'', JStr ''/api'')]" example_page Server_init "JBool False" "JBool False" new_Server]
  by (auto simp add: js_prop_def Server_init_def new_Server_def)

text \<open>
  Claim C5: for every configuration object whose \<^verbatim>\<open>src\<close> is absent or falsy, \<^verbatim>\<open>send\<close>
  records the fatal diagnostic (status 1, the message, level 0x01), logs the warning and
  stops: every other field, the list of issued requests included, is as before. The static
  \<^verbatim>\<open>send\<close> returns \<^verbatim>\<open>false\<close>; the instance \<^verbatim>\<open>send\<close> has no return value. In both
  versions \<^verbatim>\<open>checkArgs\<close> returns \<^verbatim>\<open>false\<close>.
\<close>

theorem send_missing_src:
  assumes "\<not> truthy (js_prop cfg ''src'')"
  shows "send e s (JObj cfg) c f = Inr (False, s\<lparr> status := JNum 1,
     error := JStr ''URL destination was not specified in arguments. Please specify a target URL server to send this data to.'',
     error_level := 0x01, console := console s @ [''Missing params''] \<rparr>)
   \<and> this_send e t (JObj cfg) c f = Inr (t\<lparr> this_error := JStr ''URL destination not specified'',
     this_errorLevel := 0x01, this_status := JNum 1, this_console := this_console t @ [''Missing params''] \<rparr>)
   \<and> after (send e s (JObj cfg) c f) net = Some (net s)
   \<and> this_after (this_send e t (JObj cfg) c f) this_net = Some (this_net t)
   \<and> map_sum id fst (checkArgs s (JObj cfg)) = Inr False
   \<and> map_sum id fst (this_checkArgs t (JObj cfg)) = Inr False"
  using assms
  by (simp add: send_def checkArgs_def this_send_def this_checkArgs_def and_then_def setError_def
      after_def this_after_def)

theorem send_missing_src_witness:
  "\<not> truthy (js_prop [(''args'', JObj [(''a'', JStr ''1'')])] ''src'')
   \<and> \<not> truthy (js_prop [(''src'', JStr []), (''args'', JObj [(''a'', JStr ''1'')])] ''src'')
   \<and> after (send example_page Server_init (JObj [(''args'', JObj [(''a'', JStr ''1'')])]) (JFun 0) (JBool False)) net = Some []
   \<and> after (send example_page Server_init (JObj [(''args'', JObj [(''a'', JStr ''1'')])]) (JFun 0) (JBool False)) error_level = Some 1
   \<and> after (send example_page Server_init (JObj [(''src'', JStr []), (''args'', JObj [(''a'', JStr ''1'')])]) (JFun 0) (JBool False)) params = Some []
   \<and> this_after (this_send example_page new_Server (JObj [(''args'', JObj [(''a'', JStr ''1'')])]) (JFun 0) (JBool False)) this_net = Some []"
  using send_missing_src [of "[(''args'', JObj [(''a'', JStr ''1'')])]" example_page Server_init "JFun 0" "JBool False" new_Server]
    send_missing_src [of "[(''src'', JStr []), (''args'', JObj [(''a'', JStr ''1'')])]" example_page Server_init "JFun 0" "JBool False" new_Server]
  by (simp add: js_prop_def after_def this_after_def Server_init_def new_Server_def)

section \<open>The encoded parameter string\<close>

lemma undefined_as_false_id:
  "list_all (\<lambda>kv. snd kv \<noteq> JUndefined) kvs \<Longrightarrow> undefined_as_false kvs = kvs"
  by (induction kvs) (simp_all add: undefined_as_false_def default_false_def)

text \<open>
  Claim C8, as stated, at \<^verbatim>\<open>args = {a: undefined}\<close>: a value that is not a string is to
  pass through, which gives \<^verbatim>\<open>a=undefined\<close>; the parameter of \<^verbatim>\<open>url_encode\<close> has the
  default \<^verbatim>\<open>false\<close>, which replaces the value, and the code gives \<^verbatim>\<open>a=false\<close>.
\<close>

theorem getParams_undefined_counterexample:
  "getParams example_page (Server_init\<lparr> obj := JObj [(''args'', JObj [(''a'', JUndefined)])] \<rparr>)
     = Inr ''a=false''
   \<and> join_amp (map (enc_pair example_page) [(''a'', JUndefined)]) = ''a=undefined''"
  by (simp add: getParams_def and_then_def js_prop_def enc_defs example_page_def)

text \<open>
  Claim C8, amended: for every configuration object, the static \<^verbatim>\<open>getParams\<close> yields, when
  \<^verbatim>\<open>args\<close> is an object, the pairs \<^verbatim>\<open>key=value\<close> in the order of \<^verbatim>\<open>Object.entries\<close>,
  joined by \<^verbatim>\<open>&\<close>, with keys and string values passed through \<^verbatim>\<open>encodeURI\<close> and other
  values converted to a string as they are, except that an \<^verbatim>\<open>undefined\<close> value is sent as
  \<^verbatim>\<open>false\<close>; when \<^verbatim>\<open>args\<close> is absent or not an object it yields the empty string. This
  is the value of \<^verbatim>\<open>Server.params\<close> after every \<^verbatim>\<open>send\<close> that passes validation. When no
  value is \<^verbatim>\<open>undefined\<close> the string is the one the claim words. For
  \<^verbatim>\<open>args = {a: "1", b: "x y"}\<close> the string is \<^verbatim>\<open>a=1&b=x%20y\<close>.
\<close>

theorem getParams_encodes:
  "getParams e (s\<lparr> obj := JObj cfg \<rparr>)
     = Inr (case js_prop cfg ''args'' of
          JObj kvs \<Rightarrow> join_amp (map (enc_pair e) (undefined_as_false kvs)) | _ \<Rightarrow> [])
   \<and> (truthy (js_prop cfg ''src'') \<longrightarrow>
        after (send e s (JObj cfg) c f) params
          = Some (case js_prop cfg ''args'' of
          JObj kvs \<Rightarrow> join_amp (map (enc_pair e) (undefined_as_false kvs)) | _ \<Rightarrow> []))
   \<and> (list_all (\<lambda>kv. snd kv \<noteq> JUndefined) kvs \<longrightarrow> undefined_as_false kvs = kvs)
   \<and> getParams e (s\<lparr> obj := JObj [(''src'', JStr ''/api''),
          (''args'', JObj [(''a'', JStr ''1''), (''b'', JStr ''x y'')])] \<rparr>) = Inr ''a=1&b=x%20y''"
proof (intro conjI impI)
  show "getParams e (s\<lparr> obj := JObj cfg \<rparr>)
     = Inr (case js_prop cfg ''args'' of
          JObj kvs \<Rightarrow> join_amp (map (enc_pair e) (undefined_as_false kvs)) | _ \<Rightarrow> [])"
    by (simp add: getParams_object [where cfg = cfg])
next
  assume "truthy (js_prop cfg ''src'')"
  then show "after (send e s (JObj cfg) c f) params
          = Some (case js_prop cfg ''args'' of
          JObj kvs \<Rightarrow> join_amp (map (enc_pair e) (undefined_as_false kvs)) | _ \<Rightarrow> [])"
    by (simp add: send_object after_def connect_def)
next
  assume "list_all (\<lambda>kv. snd kv \<noteq> JUndefined) kvs"
  then show "undefined_as_false kvs = kvs"
    by (rule undefined_as_false_id)
next
  show "getParams e (s\<lparr> obj := JObj [(''src'', JStr ''/api''),
          (''args'', JObj [(''a'', JStr ''1''), (''b'', JStr ''x y'')])] \<rparr>) = Inr ''a=1&b=x%20y''"
    by (simp add: getParams_def and_then_def js_prop_def enc_defs)
qed

theorem getParams_encodes_witness:
  "truthy (js_prop [(''src'', JStr ''/api''),
       (''args'', JObj [(''n'', JNum 7), (''q r'', JStr ''x y&z''), (''u'', JUndefined)])] ''src'')
   \<and> after (send example_page Server_init
         (JObj [(''src'', JStr ''/api''),
           (''args'', JObj [(''n'', JNum 7), (''q r'', JStr ''x y&z''), (''u'', JUndefined)])])
         (JBool False) (JBool False)) params = Some ''n=7&q%20r=x%20y&z&u=false''
   \<and> after (send example_page Server_init (JObj [(''src'', JStr ''/api''), (''args'', JStr ''a=1'')])
         (JBool False) (JBool False)) params = Some []
   \<and> list_all (\<lambda>kv. snd kv \<noteq> JUndefined) [(''n'', JNum 7), (''q r'', JStr ''x y&z'')]
   \<and> undefined_as_false [(''n'', JNum 7), (''q r'', JStr ''x y&z'')] = [(''n'', JNum 7), (''q r'', JStr ''x y&z'')]"
  using getParams_encodes [where e = example_page and s = Server_init and c = "JBool False" and f = "JBool False"
      and cfg = "[(''src'', JStr ''/api''),
           (''args'', JObj [(''n'', JNum 7), (''q r'', JStr ''x y&z''), (''u'', JUndefined)])]"
      and kvs = "[(''n'', JNum 7), (''q r'', JStr ''x y&z'')]"]
    getParams_encodes [where e = example_page and s = Server_init and c = "JBool False" and f = "JBool False"
      and cfg = "[(''src'', JStr ''/api''), (''args'', JStr ''a=1'')]"
      and kvs = "[]"]
  by (simp add: js_prop_def enc_defs example_page_def decimal.simps)

text \<open>
  Claim C10: the encoding is not injective. \<^verbatim>\<open>encodeURI\<close> keeps \<^verbatim>\<open>&\<close> and \<^verbatim>\<open>=\<close>, so
  the two distinct mappings \<^verbatim>\<open>{a: "b&c=d"}\<close> and \<^verbatim>\<open>{a: "b", c: "d"}\<close> are both encoded
  as \<^verbatim>\<open>a=b&c=d\<close>, by the static and by the instance version.
\<close>

theorem getParams_not_injective:
  "getParams e (s\<lparr> obj := JObj [(''args'', JObj [(''a'', JStr ''b&c=d'')])] \<rparr>) = Inr ''a=b&c=d''
   \<and> getParams e (s\<lparr> obj := JObj [(''args'', JObj [(''a'', JStr ''b''), (''c'', JStr ''d'')])] \<rparr>) = Inr ''a=b&c=d''
   \<and> this_getParams e (t\<lparr> this_obj := JObj [(''args'', JObj [(''a'', JStr ''b&c=d'')])] \<rparr>) = Inr ''a=b&c=d''
   \<and> this_getParams e (t\<lparr> this_obj := JObj [(''args'', JObj [(''a'', JStr ''b''), (''c'', JStr ''d'')])] \<rparr>) = Inr ''a=b&c=d''
   \<and> JObj [(''a'', JStr ''b&c=d'')] \<noteq> JObj [(''a'', JStr ''b''), (''c'', JStr ''d'')]
   \<and> url_encode (JStr ''b&c=d'') = JStr ''b&c=d'' \<and> urlEncode (JStr ''b&c=d'') = JStr ''b&c=d''"
  by (simp add: getParams_def this_getParams_def checkObj_def and_then_def js_prop_def enc_defs)

theorem getParams_not_injective_witness:
  "getParams example_page (Server_init\<lparr> obj := JObj [(''args'', JObj [(''a'', JStr ''b&c=d'')])] \<rparr>)
     = getParams example_page (Server_init\<lparr> obj := JObj [(''args'', JObj [(''a'', JStr ''b''), (''c'', JStr ''d'')])] \<rparr>)
   \<and> this_getParams example_page (new_Server\<lparr> this_obj := JObj [(''args'', JObj [(''a'', JStr ''b&c=d'')])] \<rparr>)
     = this_getParams example_page (new_Server\<lparr> this_obj := JObj [(''args'', JObj [(''a'', JStr ''b''), (''c'', JStr ''d'')])] \<rparr>)"
  using getParams_not_injective [where e = example_page and s = Server_init and t = new_Server] by simp

section \<open>canReach\<close>

lemma canReach_event_Resolved: "canReach_event ev (Resolved b) = Resolved b"
  by (cases ev) (simp_all add: resolve_def)

lemma fold_canReach_event_Resolved: "fold canReach_event evs (Resolved b) = Resolved b"
  by (induction evs) (simp_all add: canReach_event_Resolved)

lemma fold_canReach_event_Pending:
  "fold canReach_event evs Pending =
     (case find settles evs of
        None \<Rightarrow> Pending
      | Some (ReadyStateChange readyState xstatus) \<Rightarrow> Resolved (200 \<le> xstatus \<and> xstatus < 300)
      | Some OnError \<Rightarrow> Resolved False
      | Some OnTimeout \<Rightarrow> Resolved False)"
proof (induction evs)
  case Nil
  then show ?case by simp
next
  case (Cons ev evs)
  then show ?case
    by (cases ev) (simp_all add: resolve_def fold_canReach_event_Resolved)
qed

text \<open>
  Claim C9: for every timeout, \<^verbatim>\<open>canReach\<close> on a falsy url (the empty string included)
  resolves \<^verbatim>\<open>false\<close> with no request issued. On any other url it issues one HEAD request,
  and the promise takes the value of the first event that settles it: \<^verbatim>\<open>true\<close> exactly
  when that event is the completion (ready state 4) with a status in [200, 300), \<^verbatim>\<open>false\<close>
  when it is a completion with another status, an error or a timeout.
\<close>

theorem canReach_resolves:
  "(\<not> truthy url \<longrightarrow> canReach url timeout evs = (Resolved False, []))
   \<and> (truthy url \<longrightarrow>
        canReach url timeout evs =
          (case find settles evs of
             None \<Rightarrow> Pending
           | Some (ReadyStateChange readyState xstatus) \<Rightarrow> Resolved (200 \<le> xstatus \<and> xstatus < 300)
           | Some OnError \<Rightarrow> Resolved False
           | Some OnTimeout \<Rightarrow> Resolved False,
           [\<lparr> rq_method = ''HEAD'', rq_url = url, rq_headers = [], rq_body = None,
              rq_timeout = Some (if timeout = JUndefined then JNum 100 else timeout) \<rparr>]))"
  by (simp add: canReach_def fold_canReach_event_Pending Let_def)

theorem canReach_resolves_witness:
  "canReach (JStr []) (JNum 100) [ReadyStateChange 4 200] = (Resolved False, [])
   \<and> canReach JUndefined JUndefined [] = (Resolved False, [])
   \<and> fst (canReach (JStr ''https://example.com'') (JNum 100)
        [ReadyStateChange 1 0, ReadyStateChange 2 204, ReadyStateChange 4 204]) = Resolved True
   \<and> fst (canReach (JStr ''https://example.com'') (JNum 100)
        [ReadyStateChange 1 0, ReadyStateChange 2 500, ReadyStateChange 3 500, ReadyStateChange 4 500]) = Resolved False
   \<and> fst (canReach (JStr ''https://example.com'') (JNum 100)
        [ReadyStateChange 1 0, ReadyStateChange 4 0, OnError]) = Resolved False
   \<and> fst (canReach (JStr ''https://example.com'') (JNum 100)
        [ReadyStateChange 1 0, OnTimeout, ReadyStateChange 4 200]) = Resolved False
   \<and> fst (canReach (JStr ''https://example.com'') (JNum 100) [ReadyStateChange 1 0]) = Pending"
  using canReach_resolves [where url = "JStr []" and timeout = "JNum 100" and evs = "[ReadyStateChange 4 200]"]
    canReach_resolves [where url = JUndefined and timeout = JUndefined and evs = "[]"]
    canReach_resolves [where url = "JStr ''https://example.com''" and timeout = "JNum 100"
      and evs = "[ReadyStateChange 1 0, ReadyStateChange 2 204, ReadyStateChange 4 204]"]
    canReach_resolves [where url = "JStr ''https://example.com''" and timeout = "JNum 100"
      and evs = "[ReadyStateChange 1 0, ReadyStateChange 2 500, ReadyStateChange 3 500, ReadyStateChange 4 500]"]
    canReach_resolves [where url = "JStr ''https://example.com''" and timeout = "JNum 100"
      and evs = "[ReadyStateChange 1 0, ReadyStateChange 4 0, OnError]"]
    canReach_resolves [where url = "JStr ''https://example.com''" and timeout = "JNum 100"
      and evs = "[ReadyStateChange 1 0, OnTimeout, ReadyStateChange 4 200]"]
    canReach_resolves [where url = "JStr ''https://example.com''" and timeout = "JNum 100" and evs = "[ReadyStateChange 1 0]"]
  by simp

section \<open>The resolved callback\<close>

lemma js_or_chain_find:
  "js_or (js_or (js_or (js_or a b) c) d) (JBool False)
     = (case find truthy [a, b, c, d] of Some v \<Rightarrow> v | None \<Rightarrow> JBool False)"
  by (simp add: js_or_def)

text \<open>
  The instance \<^verbatim>\<open>send\<close> consults \<^verbatim>\<open>setCallbackFunction\<close> only when its third argument is
  not \<^verbatim>\<open>false\<close>: with both positional arguments \<^verbatim>\<open>false\<close> it stores \<^verbatim>\<open>false\<close>, whatever
  the configuration holds.
\<close>

lemma instance_send_ignores_callback_keys:
  assumes "truthy (js_prop cfg ''src'')" and "js_prop cfg ''args'' \<noteq> JNull"
  shows "this_after (this_send e t (JObj cfg) (JBool False) (JBool False)) this_cbf = Some (JBool False)"
  by (simp add: this_send_object [OF assms] this_after_def this_connect_def)

text \<open>
  Claim C3, as stated, at a configuration that supplies \<^verbatim>\<open>callback\<close> and \<^verbatim>\<open>func\<close> and no
  positional callback: the order of the claim gives the value of \<^verbatim>\<open>callback\<close>, the code
  resolves the value of \<^verbatim>\<open>func\<close>.
\<close>

theorem callback_priority_counterexample:
  "after (send example_page Server_init
      (JObj [(''src'', JStr ''https://example.com/api''), (''args'', JObj [(''a'', JStr ''1'')]),
             (''callback'', JFun 1), (''func'', JFun 2)]) (JBool False) (JBool False)) cbf = Some (JFun 2)
   \<and> spec_callback [(''src'', JStr ''https://example.com/api''), (''args'', JObj [(''a'', JStr ''1'')]),
             (''callback'', JFun 1), (''func'', JFun 2)] = Some (JFun 1)"
  by (simp add: static_defs page_defs case_defs enc_defs spec_callback_def)

text \<open>
  Claim C3, amended: \<^verbatim>\<open>setCallbackFunction\<close>, in both versions, resolves the callback to
  the value of the first key whose value is truthy, in the order \<^verbatim>\<open>func\<close>, \<^verbatim>\<open>cbf\<close>,
  \<^verbatim>\<open>callback\<close>, \<^verbatim>\<open>callback-function\<close>, and to \<^verbatim>\<open>false\<close> when there is none; this is the
  callback the static \<^verbatim>\<open>send\<close> resolves when both positional callback arguments are
  \<^verbatim>\<open>false\<close>.
\<close>

theorem callback_priority_order:
  "setCallbackFunction (s\<lparr> obj := JObj cfg \<rparr>)
     = Inr (s\<lparr> obj := JObj cfg,
          cbf := (case find truthy (map (js_prop cfg) [''func'', ''cbf'', ''callback'', ''callback-function''])
                  of Some v \<Rightarrow> v | None \<Rightarrow> JBool False) \<rparr>)
   \<and> this_setCallbackFunction (t\<lparr> this_obj := JObj cfg \<rparr>)
     = Inr (case find truthy (map (js_prop cfg) [''func'', ''cbf'', ''callback'', ''callback-function''])
            of Some v \<Rightarrow> v | None \<Rightarrow> JBool False)
   \<and> (truthy (js_prop cfg ''src'') \<longrightarrow>
        after (send e s (JObj cfg) (JBool False) (JBool False)) cbf
          = Some (case find truthy (map (js_prop cfg) [''func'', ''cbf'', ''callback'', ''callback-function''])
                  of Some v \<Rightarrow> v | None \<Rightarrow> JBool False))"
proof (intro conjI impI)
  show "setCallbackFunction (s\<lparr> obj := JObj cfg \<rparr>)
     = Inr (s\<lparr> obj := JObj cfg,
          cbf := (case find truthy (map (js_prop cfg) [''func'', ''cbf'', ''callback'', ''callback-function''])
                  of Some v \<Rightarrow> v | None \<Rightarrow> JBool False) \<rparr>)"
    by (simp only: setCallbackFunction_object [where cfg = cfg and s = "s\<lparr> obj := JObj cfg \<rparr>", simplified]
        js_or_chain_find list.map)
next
  show "this_setCallbackFunction (t\<lparr> this_obj := JObj cfg \<rparr>)
     = Inr (case find truthy (map (js_prop cfg) [''func'', ''cbf'', ''callback'', ''callback-function''])
            of Some v \<Rightarrow> v | None \<Rightarrow> JBool False)"
    by (simp only: this_setCallbackFunction_object [where cfg = cfg and s = "t\<lparr> this_obj := JObj cfg \<rparr>", simplified]
        js_or_chain_find list.map)
next
  assume "truthy (js_prop cfg ''src'')"
  then have "after (send e s (JObj cfg) (JBool False) (JBool False)) cbf
      = Some (js_or (js_or (js_or (js_or (js_prop cfg ''func'') (js_prop cfg ''cbf''))
                (js_prop cfg ''callback'')) (js_prop cfg ''callback-function'')) (JBool False))"
    by (simp add: send_object after_def connect_def)
  then show "after (send e s (JObj cfg) (JBool False) (JBool False)) cbf
          = Some (case find truthy (map (js_prop cfg) [''func'', ''cbf'', ''callback'', ''callback-function''])
                  of Some v \<Rightarrow> v | None \<Rightarrow> JBool False)"
    by (simp only: js_or_chain_find list.map)
qed

theorem callback_priority_order_witness:
  "truthy (js_prop [(''src'', JStr ''/api''), (''args'', JObj [(''a'', JStr ''1'')]),
       (''callback-function'', JStr ''done''), (''callback'', JFun 1), (''cbf'', JStr [])] ''src'')
   \<and> after (send example_page Server_init
        (JObj [(''src'', JStr ''/api''), (''args'', JObj [(''a'', JStr ''1'')]),
          (''callback-function'', JStr ''done''), (''callback'', JFun 1), (''cbf'', JStr [])])
        (JBool False) (JBool False)) cbf = Some (JFun 1)"
  using callback_priority_order [where e = example_page and s = Server_init and t = new_Server
      and cfg = "[(''src'', JStr ''/api''), (''args'', JObj [(''a'', JStr ''1'')]),
          (''callback-function'', JStr ''done''), (''callback'', JFun 1), (''cbf'', JStr [])]"]
  by (simp add: js_prop_def)

section \<open>Method and content type\<close>

text \<open>
  What each version puts into the header and into the method, for every configuration
  object: the static version sends \<^verbatim>\<open>Server.content_type\<close> as it was before the call and
  keeps the method of the state when the configuration has none; the instance version
  sends the content type it resolved and falls back to \<^verbatim>\<open>POST\<close>.
\<close>

lemma static_header_is_content_type:
  assumes "truthy (js_prop cfg ''src'')" and "send e s (JObj cfg) c f = Inr (True, s')"
  shows "\<exists>q. net s' = net s @ [q] \<and> rq_headers q = [(''Content-type'', content_type s)]"
  using assms(2)
  by (auto simp add: send_object [OF assms(1)] connect_def split: if_splits)

lemma instance_header_is_resolved_content_type:
  assumes "truthy (js_prop cfg ''src'')" and "this_send e t (JObj cfg) c f = Inr t'"
    and "this_net t' \<noteq> this_net t"
  shows "\<exists>q. this_net t' = this_net t @ [q]
    \<and> rq_headers q = [(''Content-type'',
         (case js_prop cfg ''content-type'' of
            JStr x \<Rightarrow> if x \<noteq> [] then toUpperCase x else ''application/x-www-form-urlencoded''
          | _ \<Rightarrow> ''application/x-www-form-urlencoded''))]"
proof (cases "js_prop cfg ''args'' = JNull")
  case True
  have "this_send e t (JObj cfg) c f = Inl TypeError"
    using assms(1) True
    by (simp add: this_send_def this_checkArgs_def prepareAndSend_def this_getSrc_def checkObj_def
        and_then_def setWarning_def this_getParams_null [where cfg = cfg])
  with assms(2) show ?thesis by simp
next
  case False
  show ?thesis
    using assms(2,3)
    by (auto simp add: this_send_object [OF assms(1) False] this_connect_def split: if_splits)
qed

lemma static_method_kept:
  assumes "truthy (js_prop cfg ''src'')" and "map_of cfg ''method'' = None"
  shows "after (send e s (JObj cfg) c f) method = Some (method s)"
  using assms(2) by (simp add: send_object [OF assms(1)] after_def connect_def js_prop_def)

lemma instance_method_default:
  assumes "truthy (js_prop cfg ''src'')" and "js_prop cfg ''args'' \<noteq> JNull"
    and "map_of cfg ''method'' = None" and "map_of cfg ''content-type'' = None"
  shows "this_after (this_send e t (JObj cfg) c f) this_method = Some ''POST''"
    and "this_after (this_send e t (JObj cfg) c f) this_contentType = Some ''application/x-www-form-urlencoded''"
  using assms(3,4)
  by (simp_all add: this_send_object [OF assms(1,2)] this_after_def this_connect_def js_prop_def)

text \<open>
  Claim C2 at the configuration
  \<^verbatim>\<open>{src: "https://example.com/api", args: {a: "1"}, "content-type": "text/plain"}\<close>:
  the static version stores the upper-cased value in \<^verbatim>\<open>Server.contentType\<close> and sends the
  one header \<^verbatim>\<open>Content-type: application/x-www-form-urlencoded\<close>, read from
  \<^verbatim>\<open>Server.content_type\<close>; the instance version sends \<^verbatim>\<open>Content-type: TEXT/PLAIN\<close>.
\<close>

theorem static_content_type_header_unchanged:
  "after (send example_page Server_init
      (JObj [(''src'', JStr ''https://example.com/api''), (''args'', JObj [(''a'', JStr ''1'')]),
             (''content-type'', JStr ''text/plain'')]) (JBool False) (JBool False)) net
     = Some [\<lparr> rq_method = ''POST'', rq_url = JStr ''https://example.com/api'',
         rq_headers = [(''Content-type'', ''application/x-www-form-urlencoded'')],
         rq_body = Some ''a=1'', rq_timeout = None \<rparr>]
   \<and> after (send example_page Server_init
      (JObj [(''src'', JStr ''https://example.com/api''), (''args'', JObj [(''a'', JStr ''1'')]),
             (''content-type'', JStr ''text/plain'')]) (JBool False) (JBool False)) contentType
     = Some (JStr ''TEXT/PLAIN'')
   \<and> this_after (this_send example_page new_Server
      (JObj [(''src'', JStr ''https://example.com/api''), (''args'', JObj [(''a'', JStr ''1'')]),
             (''content-type'', JStr ''text/plain'')]) (JBool False) (JBool False)) this_net
     = Some [\<lparr> rq_method = ''POST'', rq_url = JStr ''https://example.com/api'',
         rq_headers = [(''Content-type'', ''TEXT/PLAIN'')],
         rq_body = Some ''a=1'', rq_timeout = None \<rparr>]"
  by (simp add: static_defs inst_defs page_defs case_defs enc_defs)

text \<open>
  Claim C6 at two calls in a row, the first with \<^verbatim>\<open>method: "get"\<close> and the second with no
  \<^verbatim>\<open>method\<close> key: the static version opens the second request with \<^verbatim>\<open>GET\<close>, the method
  resolved by the first call; the instance version opens it with \<^verbatim>\<open>POST\<close>.
\<close>

theorem static_method_persists:
  "after (then_send example_page
       (send example_page Server_init
          (JObj [(''src'', JStr ''https://example.com/api''), (''args'', JObj [(''a'', JStr ''1'')]),
                 (''method'', JStr ''get'')]) (JBool False) (JBool False))
       (JObj [(''src'', JStr ''https://example.com/api''), (''args'', JObj [(''b'', JStr ''2'')])])
       (JBool False) (JBool False)) net
     = Some [\<lparr> rq_method = ''GET'', rq_url = JStr ''https://example.com/api'',
               rq_headers = [(''Content-type'', ''application/x-www-form-urlencoded'')],
               rq_body = Some ''a=1'', rq_timeout = None \<rparr>,
             \<lparr> rq_method = ''GET'', rq_url = JStr ''https://example.com/api'',
               rq_headers = [(''Content-type'', ''application/x-www-form-urlencoded'')],
               rq_body = Some ''b=2'', rq_timeout = None \<rparr>]
   \<and> this_after (this_then_send example_page
       (this_send example_page new_Server
          (JObj [(''src'', JStr ''https://example.com/api''), (''args'', JObj [(''a'', JStr ''1'')]),
                 (''method'', JStr ''get'')]) (JBool False) (JBool False))
       (JObj [(''src'', JStr ''https://example.com/api''), (''args'', JObj [(''b'', JStr ''2'')])])
       (JBool False) (JBool False)) this_net
     = Some [\<lparr> rq_method = ''GET'', rq_url = JStr ''https://example.com/api'',
               rq_headers = [(''Content-type'', ''application/x-www-form-urlencoded'')],
               rq_body = Some ''a=1'', rq_timeout = None \<rparr>,
             \<lparr> rq_method = ''POST'', rq_url = JStr ''https://example.com/api'',
               rq_headers = [(''Content-type'', ''application/x-www-form-urlencoded'')],
               rq_body = Some ''b=2'', rq_timeout = None \<rparr>]"
  by (simp add: static_defs inst_defs page_defs case_defs enc_defs)

section \<open>Delivery of the response\<close>

text \<open>
  The static handler, on a completed request with a status in [200, 300): a callback that
  is a function, or the name of a global function, is called with the parsed body when the
  body holds both braces or both brackets and parses, and with the text otherwise. The
  instance handler calls no callback on any input.
\<close>

lemma static_handler_delivers:
  assumes "200 \<le> xstatus" and "xstatus < 300"
    and "typeof (cbf s) = ''function''" and "\<not> truthy (window e (ToString e (cbf s)))"
  shows "onreadystatechange e s 4 xstatus body =
     Invoke (cbf s)
       (if (CHR ''{'' \<in> set body \<and> CHR ''}'' \<in> set body) \<or> (CHR ''['' \<in> set body \<and> CHR '']'' \<in> set body)
        then (case JSON_parse e body of Some v \<Rightarrow> v | None \<Rightarrow> JStr body)
        else JStr body)"
proof -
  from assms(3) have "truthy (cbf s)"
    by (cases "cbf s") simp_all
  with assms show ?thesis
    by (simp add: onreadystatechange_def call_def)
qed

lemma static_handler_delivers_to_global:
  assumes "200 \<le> xstatus" and "xstatus < 300"
    and "cbf s = JStr name" and "name \<noteq> []" and "typeof (window e name) = ''function''"
  shows "onreadystatechange e s 4 xstatus body =
     Invoke (window e name)
       (if (CHR ''{'' \<in> set body \<and> CHR ''}'' \<in> set body) \<or> (CHR ''['' \<in> set body \<and> CHR '']'' \<in> set body)
        then (case JSON_parse e body of Some v \<Rightarrow> v | None \<Rightarrow> JStr body)
        else JStr body)"
proof -
  from assms(5) have "truthy (window e name)"
    by (cases "window e name") simp_all
  with assms show ?thesis
    by (simp add: onreadystatechange_def call_def ToString_def)
qed

lemma instance_handler_never_delivers:
  "handleReadyStateChange e t readyState xstatus body \<noteq> Invoke g x"
  by (simp add: handleReadyStateChange_def processResponse_def)

text \<open>
  Claim C4 at a completed request with status 200 and a function as callback, for the
  bodies \<^verbatim>\<open>plain\<close> and \<^verbatim>\<open>{"k":1}\<close>: the instance version throws a ReferenceError in
  \<^verbatim>\<open>processResponse\<close> before it reaches the callback; the static version calls the
  callback with the text, and with the parsed object.
\<close>

theorem instance_processResponse_throws:
  "handleReadyStateChange example_page (new_Server\<lparr> this_cbf := JFun 0 \<rparr>) 4 200 ''plain''
     = Throws ReferenceError
   \<and> handleReadyStateChange example_page (new_Server\<lparr> this_cbf := JFun 0 \<rparr>) 4 200
       [CHR ''{'', CHR 0x22, CHR ''k'', CHR 0x22, CHR '':'', CHR ''1'', CHR ''}'']
     = Throws ReferenceError
   \<and> onreadystatechange example_page (Server_init\<lparr> cbf := JFun 0 \<rparr>) 4 200 ''plain''
     = Invoke (JFun 0) (JStr ''plain'')
   \<and> onreadystatechange example_page (Server_init\<lparr> cbf := JFun 0 \<rparr>) 4 200
       [CHR ''{'', CHR 0x22, CHR ''k'', CHR 0x22, CHR '':'', CHR ''1'', CHR ''}'']
     = Invoke (JFun 0) (JObj [(''k'', JNum 1)])"
  by (simp add: handleReadyStateChange_def processResponse_def onreadystatechange_def call_def
      ToString_def page_defs)

section \<open>Source resolution\<close>

lemma indexOf_found_single: "indexOf_found q [c] = (c \<in> set q)"
  by (induction q) auto

lemma lower_char_line_terminator: "line_terminator c \<Longrightarrow> lower_char c = c"
  by (auto simp: line_terminator_def lower_char_def)

lemma lower_char_dot: "lower_char (CHR ''.'') = CHR ''.''"
  by (simp add: lower_char_def)

lemma ext_chars:
  assumes "toLowerCase ext \<in> set [''php'', ''js'', ''css'', ''html'', ''asp'']" and "c \<in> set ext"
  shows "lower_char c \<in> set ''phjsctmla''"
proof -
  from assms(2) have "lower_char c \<in> set (toLowerCase ext)"
    by (simp add: toLowerCase_def)
  with assms(1) show ?thesis by auto
qed

lemma ext_no_line_terminator:
  assumes "toLowerCase ext \<in> set [''php'', ''js'', ''css'', ''html'', ''asp'']"
  shows "dropWhile (\<lambda>c. \<not> line_terminator c) ext = []"
proof -
  have "\<not> line_terminator c" if "c \<in> set ext" for c
  proof
    assume lt: "line_terminator c"
    from ext_chars [OF assms that] have "c \<in> set ''phjsctmla''"
      by (simp only: lower_char_line_terminator [OF lt])
    with lt show False by (auto simp: line_terminator_def)
  qed
  then show ?thesis by simp
qed

lemma ext_no_dot:
  assumes "toLowerCase ext \<in> set [''php'', ''js'', ''css'', ''html'', ''asp'']"
  shows "CHR ''.'' \<notin> set ext"
proof
  assume "CHR ''.'' \<in> set ext"
  from ext_chars [OF assms this] show False
    by (simp add: lower_char_dot)
qed

lemma ext_here_ext:
  assumes "toLowerCase ext \<in> set [''php'', ''js'', ''css'', ''html'', ''asp'']"
  shows "ext_here ext"
  using assms by (auto simp: ext_here_def starts_ci_def)

lemma ext_found_ext:
  assumes "toLowerCase ext \<in> set [''php'', ''js'', ''css'', ''html'', ''asp'']"
  shows "ext_found ext"
proof (cases ext)
  case Nil
  with assms show ?thesis by (simp add: toLowerCase_def)
next
  case (Cons c cs)
  with ext_here_ext [OF assms] show ?thesis by simp
qed

lemma takeWhile_until: "c \<notin> set xs \<Longrightarrow> takeWhile (\<lambda>x. x \<noteq> c) (xs @ c # ys) = xs"
  by (induction xs) auto

lemma last_split_append:
  "CHR ''.'' \<notin> set ext \<Longrightarrow> last_split (xs @ CHR ''.'' # ext) = ext"
  by (simp add: last_split_def takeWhile_until)

lemma class_Az09_not_slash: "\<not> class_Az09 (CHR ''/'')" and class_Az09_not_dot: "\<not> class_Az09 (CHR ''.'')"
  by (simp_all add: class_Az09_def)

lemma name_dot_ext_name:
  assumes "name \<noteq> []" and "list_all class_Az09 name"
    and "toLowerCase ext \<in> set [''php'', ''js'', ''css'', ''html'', ''asp'']"
  shows "name_dot_ext (name @ CHR ''.'' # ext) = Some []"
proof -
  from assms(2) have all: "\<forall>c \<in> set name. class_Az09 c"
    by (simp add: list_all_iff)
  then have d: "dropWhile class_Az09 (name @ CHR ''.'' # ext) = CHR ''.'' # ext"
    by (simp add: dropWhile_append2 class_Az09_not_dot)
  from all have t: "takeWhile class_Az09 (name @ CHR ''.'' # ext) = name"
    by (simp add: takeWhile_append2 class_Az09_not_dot)
  show ?thesis
    by (simp add: name_dot_ext_def d t assms(1) ext_here_ext [OF assms(3)] ext_no_line_terminator [OF assms(3)])
qed

lemma dropWhile_stops_before_dot:
  "CHR ''.'' \<notin> set xs \<Longrightarrow>
   \<exists>x r. dropWhile class_Az09 (xs @ CHR ''/'' # ys) = x # r \<and> x \<noteq> CHR ''.''"
  by (induction xs) (auto simp: class_Az09_not_slash)

lemma name_dot_ext_none:
  assumes "CHR ''.'' \<notin> set xs"
  shows "name_dot_ext (xs @ CHR ''/'' # ys) = None"
proof -
  from dropWhile_stops_before_dot [OF assms] obtain x r
    where "dropWhile class_Az09 (xs @ CHR ''/'' # ys) = x # r" and "x \<noteq> CHR ''.''"
    by blast
  then show ?thesis by (simp add: name_dot_ext_def)
qed

lemma regex_replace_strips:
  assumes "name \<noteq> []" and "list_all class_Az09 name"
    and "toLowerCase ext \<in> set [''php'', ''js'', ''css'', ''html'', ''asp'']"
  shows "CHR ''.'' \<notin> set dir \<Longrightarrow> regex_replace (dir @ CHR ''/'' # name @ CHR ''.'' # ext) = dir @ ''/''"
proof (induction dir)
  case Nil
  show ?case
    by (simp add: regex_at_def name_dot_ext_name [OF assms])
next
  case (Cons d dir)
  then have nd: "CHR ''.'' \<notin> set dir" and nd': "CHR ''.'' \<notin> set (d # dir)"
    by simp_all
  have "regex_at (d # dir @ CHR ''/'' # name @ CHR ''.'' # ext) = None"
    using name_dot_ext_none [OF nd, of "name @ CHR ''.'' # ext"]
      name_dot_ext_none [OF nd', of "name @ CHR ''.'' # ext"]
    by (cases "d = CHR ''/''") (simp_all add: regex_at_def)
  with Cons.IH [OF nd] show ?case by simp
qed

lemma dirname_strips:
  assumes "name \<noteq> []" and "list_all class_Az09 name"
    and "toLowerCase ext \<in> set [''php'', ''js'', ''css'', ''html'', ''asp'']"
    and "CHR ''.'' \<notin> set dir"
  shows "dirname (JStr (dir @ ''/'' @ name @ ''.'' @ ext)) = JStr (dir @ ''/'')"
proof -
  have 1: "indexOf_found (dir @ CHR ''/'' # name @ CHR ''.'' # ext) ''.''"
    by (simp add: indexOf_found_single)
  have 2: "last_split (dir @ CHR ''/'' # name @ CHR ''.'' # ext) = ext"
    using last_split_append [OF ext_no_dot [OF assms(3)], of "dir @ CHR ''/'' # name"] by simp
  show ?thesis
    by (simp add: dirname_def 1 2 ext_found_ext [OF assms(3)] regex_replace_strips [OF assms])
qed

lemma dirname_unchanged:
  "\<not> indexOf_found q ''.'' \<or> \<not> ext_found (last_split q) \<Longrightarrow> dirname (JStr q) = JStr q"
  by (auto simp: dirname_def)

lemma dirname_string: "\<exists>d. dirname (JStr q) = JStr d"
  by (simp add: dirname_def)

lemmas dirname_defs = dirname_def last_split_def ext_found.simps ext_here_def starts_ci_def regex_at_def
  name_dot_ext_def class_Az09_def line_terminator_def spec_dirname_def

text \<open>
  Claim C7, as stated, at the path \<^verbatim>\<open>/app/data.json\<close>: the extension \<^verbatim>\<open>json\<close> is none of
  the five, so the claim keeps the path; \<^verbatim>\<open>dirname\<close> strips the file name, since the test
  on the extension is an unanchored match and \<^verbatim>\<open>json\<close> contains \<^verbatim>\<open>js\<close>.
\<close>

theorem dirname_counterexample:
  "dirname (JStr ''/app/data.json'') = JStr ''/app/''
   \<and> spec_dirname ''/app/data.json'' = ''/app/data.json''"
  by (simp add: dirname_defs case_defs)

text \<open>
  Claim C7, amended: with the override at its default, for every non-empty string
  \<^verbatim>\<open>src\<close> that does not contain \<^verbatim>\<open>http\<close> in any case, the source resolved by the static
  \<^verbatim>\<open>send\<close> is the page's protocol, \<^verbatim>\<open>//\<close>, its host (its hostname when the host is
  empty), \<^verbatim>\<open>dirname\<close> of its path, and \<^verbatim>\<open>src\<close>. \<^verbatim>\<open>dirname\<close> keeps a path that has no
  dot, or whose text after the last dot contains none of php, js, css, html, asp in any
  case; it strips a trailing file name \<^verbatim>\<open>name.ext\<close>, keeping the slash, when \<^verbatim>\<open>ext\<close> is one of
  the five in any case, \<^verbatim>\<open>name\<close> is made of characters of \<^verbatim>\<open>[A-z0-9]\<close> and the directory
  part has no dot. With the page at \<^verbatim>\<open>https://example.com/app/index.html\<close> and
  \<^verbatim>\<open>src: "data.json"\<close> the resolved source is \<^verbatim>\<open>https://example.com/app/data.json\<close>.
\<close>

theorem relative_source_resolution:
  "(url_auto_resolve s = JBool False \<and> js_prop cfg ''src'' = JStr t \<and> t \<noteq> []
      \<and> \<not> indexOf_found (toLowerCase t) ''http'' \<longrightarrow>
      (\<exists>d. dirname (JStr (location_pathname e)) = JStr d
         \<and> after (send e s (JObj cfg) c f) src
             = Some (JStr (location_protocol e @ ''//''
                 @ (if location_host e \<noteq> [] then location_host e else location_hostname e)
                 @ d @ t))))
   \<and> (\<not> indexOf_found q ''.'' \<or> \<not> ext_found (last_split q) \<longrightarrow> dirname (JStr q) = JStr q)
   \<and> (name \<noteq> [] \<and> list_all class_Az09 name
        \<and> toLowerCase ext \<in> set [''php'', ''js'', ''css'', ''html'', ''asp'']
        \<and> CHR ''.'' \<notin> set dir \<longrightarrow>
      dirname (JStr (dir @ ''/'' @ name @ ''.'' @ ext)) = JStr (dir @ ''/''))
   \<and> after (send example_page Server_init (JObj [(''src'', JStr ''data.json'')]) (JBool False) (JBool False)) src
       = Some (JStr ''https://example.com/app/data.json'')"
proof (intro conjI impI)
  assume a: "url_auto_resolve s = JBool False \<and> js_prop cfg ''src'' = JStr t \<and> t \<noteq> []
      \<and> \<not> indexOf_found (toLowerCase t) ''http''"
  obtain d where d: "dirname (JStr (location_pathname e)) = JStr d"
    using dirname_string by blast
  from a have tr: "truthy (js_prop cfg ''src'')" by simp
  have "after (send e s (JObj cfg) c f) src
             = Some (JStr (location_protocol e @ ''//''
                 @ (if location_host e \<noteq> [] then location_host e else location_hostname e)
                 @ d @ t))"
    using a by (simp add: send_object [OF tr] after_def connect_def d ToString_def)
  with d show "\<exists>d. dirname (JStr (location_pathname e)) = JStr d
         \<and> after (send e s (JObj cfg) c f) src
             = Some (JStr (location_protocol e @ ''//''
                 @ (if location_host e \<noteq> [] then location_host e else location_hostname e)
                 @ d @ t))"
    by blast
next
  assume "\<not> indexOf_found q ''.'' \<or> \<not> ext_found (last_split q)"
  then show "dirname (JStr q) = JStr q" by (rule dirname_unchanged)
next
  assume "name \<noteq> [] \<and> list_all class_Az09 name
        \<and> toLowerCase ext \<in> set [''php'', ''js'', ''css'', ''html'', ''asp'']
        \<and> CHR ''.'' \<notin> set dir"
  then have "name \<noteq> []" and "list_all class_Az09 name"
    and "toLowerCase ext \<in> set [''php'', ''js'', ''css'', ''html'', ''asp'']"
    and "CHR ''.'' \<notin> set dir"
    by blast+
  then show "dirname (JStr (dir @ ''/'' @ name @ ''.'' @ ext)) = JStr (dir @ ''/'')"
    by (rule dirname_strips)
next
  show "after (send example_page Server_init (JObj [(''src'', JStr ''data.json'')]) (JBool False) (JBool False)) src
       = Some (JStr ''https://example.com/app/data.json'')"
    by (simp add: static_defs page_defs case_defs dirname_defs ToString_def)
qed

theorem relative_source_resolution_witness:
  "url_auto_resolve Server_init = JBool False
   \<and> js_prop [(''src'', JStr ''img/Logo.PNG''), (''args'', JObj [(''a'', JStr ''1'')])] ''src'' = JStr ''img/Logo.PNG''
   \<and> \<not> indexOf_found (toLowerCase ''img/Logo.PNG'') ''http''
   \<and> after (send (example_page\<lparr> location_host := [], location_pathname := ''/shop/v2/Cart.PHP'' \<rparr>) Server_init
        (JObj [(''src'', JStr ''img/Logo.PNG''), (''args'', JObj [(''a'', JStr ''1'')])]) (JBool False) (JBool False)) src
       = Some (JStr ''https://example.com/shop/v2/img/Logo.PNG'')
   \<and> \<not> ext_found (last_split ''/docs/readme.txt'')
   \<and> dirname (JStr ''/docs/readme.txt'') = JStr ''/docs/readme.txt''
   \<and> \<not> indexOf_found ''/docs/'' ''.''
   \<and> dirname (JStr ''/docs/'') = JStr ''/docs/''
   \<and> list_all class_Az09 ''Cart'' \<and> toLowerCase ''PHP'' \<in> set [''php'', ''js'', ''css'', ''html'', ''asp'']
   \<and> CHR ''.'' \<notin> set ''/shop/v2''
   \<and> dirname (JStr ''/shop/v2/Cart.PHP'') = JStr ''/shop/v2/''"
  using relative_source_resolution [where s = Server_init and t = "''img/Logo.PNG''" and c = "JBool False" and f = "JBool False"
      and cfg = "[(''src'', JStr ''img/Logo.PNG''), (''args'', JObj [(''a'', JStr ''1'')])]"
      and e = "example_page\<lparr> location_host := [], location_pathname := ''/shop/v2/Cart.PHP'' \<rparr>"
      and q = "''/docs/readme.txt''" and name = "''Cart''" and ext = "''PHP''" and dir = "''/shop/v2''"]
    relative_source_resolution [where s = Server_init and t = "''img/Logo.PNG''" and c = "JBool False" and f = "JBool False"
      and cfg = "[(''src'', JStr ''img/Logo.PNG''), (''args'', JObj [(''a'', JStr ''1'')])]"
      and e = example_page
      and q = "''/docs/''" and name = "''Cart''" and ext = "''PHP''" and dir = "''/shop/v2''"]
  by (auto simp add: Server_init_def js_prop_def example_page_def case_defs last_split_def ext_here_def
      starts_ci_def class_Az09_def)

end
